theory Spec2Isabelle
  imports Main "HOL-Library.Word"
begin

unbundle bit_operations_syntax

section \<open>JavaScript numbers and 32-bit integer operators\<close>

text \<open>
  The numbers that reach the buffer cursor are integer-valued. They are modelled by
  \<open>int\<close> with exact arithmetic. The source computes in binary64, which is exact on
  integers of magnitude up to \<open>2 ^ 53\<close>; where a result of the source can leave that
  range (the second loops of \<open>readLong\<close> and \<open>writeLong\<close>) the model gives no value
  but the outcome \<open>Unmodelled\<close>. The bitwise operators of the source first convert
  their operands to signed 32-bit integers (\<open>ToInt32\<close>); \<open>undefined\<close>, the result
  of reading a buffer out of range, converts to \<open>0\<close>.
\<close>

definition toInt32 :: "int \<Rightarrow> int" where
  "toInt32 x = signed_take_bit 31 x"

definition js_and :: "int \<Rightarrow> int \<Rightarrow> int" where
  "js_and a b = toInt32 a AND toInt32 b"

definition js_or :: "int \<Rightarrow> int \<Rightarrow> int" where
  "js_or a b = toInt32 a OR toInt32 b"

definition js_xor :: "int \<Rightarrow> int \<Rightarrow> int" where
  "js_xor a b = toInt32 a XOR toInt32 b"

definition js_not :: "int \<Rightarrow> int" where
  "js_not a = NOT (toInt32 a)"

definition js_shl :: "int \<Rightarrow> nat \<Rightarrow> int" where
  "js_shl a k = toInt32 (push_bit (k mod 32) (toInt32 a))"

definition js_sar :: "int \<Rightarrow> nat \<Rightarrow> int" where
  "js_sar a k = drop_bit (k mod 32) (toInt32 a)"

text \<open>The integers on which the arithmetic of binary64 is exact.\<close>

definition SAFE_MAX :: int where
  "SAFE_MAX = 9007199254740992"

section \<open>Outcomes\<close>

text \<open>
  Every \<open>throw\<close> of the source is a value. \<open>Err\<close> is \<open>new Error(message)\<close>;
  \<open>AvroTypeError\<close> and \<open>SchemaResolutionError\<close> are the errors built by
  \<open>createAvroTypeError\<close> and \<open>createSchemaResolutionError\<close>; \<open>JsTypeError\<close> and
  \<open>JsRangeError\<close> are raised by the runtime itself (calling a method that does not
  exist, reading a property of \<open>undefined\<close>, \<open>Buffer.alloc\<close> of a negative size).

  An operation \<open>Returns\<close> a value or \<open>Throws\<close> an error. \<open>Unmodelled\<close> marks an input
  on which the model does not say what the source does: binary64 arithmetic beyond
  \<open>2 ^ 53\<close>, an IEEE-754 conversion, text outside ASCII, a property that a value
  inherits from a prototype of the runtime, a schema that refers to itself.
\<close>

datatype error =
    Err string
  | AvroTypeError
  | SchemaResolutionError string
  | JsTypeError string
  | JsRangeError string

datatype 'a outcome = Returns 'a | Throws error | Unmodelled string

section \<open>The buffer cursor (Tap)\<close>

type_synonym byte = "8 word"

record tap =
  buf :: "byte list"
  pos :: int

text \<open>\<open>buf[i]\<close>: \<open>None\<close> is JavaScript's \<open>undefined\<close>, read outside the buffer.\<close>

definition buf_get :: "byte list \<Rightarrow> int \<Rightarrow> int option" where
  "buf_get b i = (if 0 \<le> i \<and> i < int (length b) then Some (uint (b ! nat i)) else None)"

text \<open>The operand of a bitwise operator read from the buffer: \<open>undefined\<close> becomes 0.\<close>

definition num_of :: "int option \<Rightarrow> int" where
  "num_of v = (case v of None \<Rightarrow> 0 | Some x \<Rightarrow> x)"

text \<open>\<open>buf[i] = v\<close>: a store outside the buffer is dropped; inside, the value is
  reduced modulo 256.\<close>

definition buf_set :: "byte list \<Rightarrow> int \<Rightarrow> int \<Rightarrow> byte list" where
  "buf_set b i v = (if 0 \<le> i \<and> i < int (length b) then b[nat i := word_of_int v] else b)"


subsection \<open>readLong\<close>

text \<open>The first loop of \<open>readLong\<close>: integer arithmetic while \<open>k < 28\<close>. It returns
  the last continuation flag \<open>h\<close>, the accumulated \<open>n\<close> and the new position.\<close>

function readLong_int :: "byte list \<Rightarrow> int \<Rightarrow> int \<Rightarrow> nat \<Rightarrow> int \<times> int \<times> int" where
  "readLong_int bf p n k =
     (let b = num_of (buf_get bf p);
          h = js_and b 0x80;
          n' = js_or n (js_shl (js_and b 0x7f) k);
          k' = k + 7
      in if h \<noteq> 0 \<and> k' < 28 then readLong_int bf (p + 1) n' k' else (h, n', p + 1))"
  by pat_completeness auto
termination
  by (relation "measure (\<lambda>(bf, p, n, k). 28 - k)") auto

declare readLong_int.simps [simp del]

text \<open>
  The second loop of \<open>readLong\<close> ("float arithmetic"): \<open>f += (b & 0x7f) * fk;
  fk *= 128\<close>. It stops at the first byte without the continuation bit, and a read
  outside the buffer is such a byte. \<open>fk\<close> is a power of two, exact in binary64 until
  it reaches \<open>2 ^ 1024\<close>, where the source has \<open>Infinity\<close>. The sum is exact while it
  stays up to \<open>2 ^ 53\<close>; beyond, the source rounds, and with \<open>fk = Infinity\<close> it gets
  \<open>Infinity\<close> or \<open>NaN\<close>. The accumulator of the model is \<open>None\<close> from the first step
  on that is not exact; the position does not depend on it.
\<close>

definition float_step :: "int option \<Rightarrow> int \<Rightarrow> int \<Rightarrow> int option" where
  "float_step f d fk =
     (case f of
        None \<Rightarrow> None
      | Some x \<Rightarrow> if fk < 2 ^ 1024 \<and> x + d * fk \<le> SAFE_MAX then Some (x + d * fk) else None)"

function readLong_float :: "byte list \<Rightarrow> int \<Rightarrow> int option \<Rightarrow> int \<Rightarrow> int option \<times> int" where
  "readLong_float bf p f fk =
     (let b = num_of (buf_get bf p);
          f' = float_step f (js_and b 0x7f) fk;
          fk' = fk * 128
      in if js_and b 0x80 \<noteq> 0 then readLong_float bf (p + 1) f' fk' else (f', p + 1))"
  by pat_completeness auto

lemma js_and_0: "js_and 0 x = 0"
  by (simp add: js_and_def toInt32_def)

lemma buf_get_None_num: "buf_get bf p = None \<Longrightarrow> js_and (num_of (buf_get bf p)) x = 0"
  by (simp add: num_of_def js_and_0)

termination readLong_float
proof (relation "measure (\<lambda>(bf, p, f, fk). nat (int (length bf) - p))", goal_cases)
  case 1
  show ?case by simp
next
  case (2 bf p f fk b f' fk')
  have "buf_get bf p \<noteq> None"
  proof
    assume "buf_get bf p = None"
    then have "js_and (num_of (buf_get bf p)) 0x80 = 0" by (rule buf_get_None_num)
    with 2 show False by simp
  qed
  then have "0 \<le> p \<and> p < int (length bf)"
    by (auto simp: buf_get_def split: if_splits)
  then show ?case by simp
qed

declare readLong_float.simps [simp del]

text \<open>\<open>readLong\<close>: \<open>(f % 2 ? -(f + 1) : f) / 2\<close> after the second loop,
  \<open>(n >> 1) ^ -(n & 1)\<close> after the first alone.\<close>

definition readLong :: "tap \<Rightarrow> int outcome \<times> tap" where
  "readLong t =
     (case readLong_int (buf t) (pos t) 0 0 of (h, n, p) \<Rightarrow>
        if h \<noteq> 0 then
          (case readLong_float (buf t) p (Some n) 268435456 of
             (Some f, p') \<Rightarrow>
               (Returns ((if f mod 2 \<noteq> 0 then - (f + 1) else f) div 2), t\<lparr>pos := p'\<rparr>)
           | (None, p') \<Rightarrow>
               (Unmodelled ''readLong: binary64 arithmetic beyond 2^53'', t\<lparr>pos := p'\<rparr>))
        else (Returns (js_xor (js_sar n 1) (- js_and n 1)), t\<lparr>pos := p\<rparr>))"

subsection \<open>writeLong\<close>

text \<open>The loop of the integer path: \<open>do { buf[pos] = m & 0x7f; m >>= 7 }
  while (m && (buf[pos++] |= 0x80))\<close>. \<open>writeLong\<close> enters it with \<open>0 \<le> m\<close>, which
  the loop keeps, and then \<open>m >> 7 \<noteq> 0\<close> implies \<open>0 < m\<close> (lemmas
  \<open>writeLong_int_arg\<close> and \<open>writeLong_int_guard\<close> below); the function stops on a
  negative \<open>m\<close>, a state the source does not reach, so that it is total.\<close>

function writeLong_int :: "byte list \<Rightarrow> int \<Rightarrow> int \<Rightarrow> byte list \<times> int" where
  "writeLong_int bf p m =
     (let bf1 = buf_set bf p (js_and m 0x7f);
          m' = js_sar m 7
      in if m' \<noteq> 0 \<and> 0 < m then
           (let v = js_or (num_of (buf_get bf1 p)) 0x80;
                bf2 = buf_set bf1 p v
            in if v \<noteq> 0 then writeLong_int bf2 (p + 1) m' else (bf2, p + 1))
         else (bf1, p))"
  by pat_completeness auto

lemma toInt32_le: "0 \<le> x \<Longrightarrow> toInt32 x \<le> x"
proof -
  assume x: "0 \<le> x"
  have "toInt32 x \<le> take_bit 32 x"
    unfolding toInt32_def by (simp add: signed_take_bit_eq_take_bit_minus)
  also have "\<dots> \<le> x"
    using x by (simp add: take_bit_int_less_eq_self_iff)
  finally show ?thesis .
qed

termination writeLong_int
proof (relation "measure (\<lambda>(bf, p, m). nat m)", goal_cases)
  case 1
  show ?case by simp
next
  case (2 bf p m bf1 m' v bf2)
  have le: "toInt32 m \<le> m" using 2 by (simp add: toInt32_le)
  have m': "m' = toInt32 m div 128"
    using 2 by (simp add: js_sar_def drop_bit_eq_div)
  have "m' < m"
  proof (cases "toInt32 m \<le> 0")
    case True
    then have "m' \<le> 0" using m' by (simp add: div_int_pos_iff not_le zdiv_mono1 div_nonpos_pos_le0)
    then show ?thesis using 2 by simp
  next
    case False
    then have "toInt32 m div 128 < toInt32 m" by (simp add: int_div_less_self)
    then show ?thesis using m' le by simp
  qed
  then show ?case using 2 by simp
qed

declare writeLong_int.simps [simp del]

text \<open>The loop of the arithmetic path: \<open>do { buf[pos] = f & 0x7f; f /= 128 }
  while (f >= 1 && (buf[pos++] |= 0x80))\<close>. The source divides a non-negative
  binary64 number by a power of two, which is exact; the loop observes only its
  integer part (\<open>f & 0x7f\<close> truncates, and \<open>f >= 1\<close> holds exactly when the integer part
  is at least 1), so the model keeps the integer part.\<close>

function writeLong_float :: "byte list \<Rightarrow> int \<Rightarrow> int \<Rightarrow> byte list \<times> int" where
  "writeLong_float bf p f =
     (let bf1 = buf_set bf p (js_and f 0x7f);
          f' = f div 128
      in if 1 \<le> f' then
           (let v = js_or (num_of (buf_get bf1 p)) 0x80;
                bf2 = buf_set bf1 p v
            in if v \<noteq> 0 then writeLong_float bf2 (p + 1) f' else (bf2, p + 1))
         else (bf1, p))"
  by pat_completeness auto
termination
  by (relation "measure (\<lambda>(bf, p, f). nat f)") auto

declare writeLong_float.simps [simp del]

text \<open>
  \<open>writeLong\<close>. On the arithmetic path the source computes \<open>n * 2\<close> or
  \<open>(-n * 2) - 1\<close> in binary64: for \<open>- 2 ^ 52 \<le> n \<le> 2 ^ 53\<close> the result is exact,
  outside (where \<open>(-n * 2) - 1\<close> is rounded, or \<open>n\<close> itself need not be a binary64
  number) the model gives \<open>Unmodelled\<close> and leaves the cursor alone.
\<close>

definition writeLong :: "int \<Rightarrow> tap \<Rightarrow> unit outcome \<times> tap" where
  "writeLong n t =
     (if - 1073741824 \<le> n \<and> n < 1073741824 then
        (let m = (if 0 \<le> n then js_shl n 1 else js_or (js_shl (js_not n) 1) 1)
         in case writeLong_int (buf t) (pos t) m of
              (bf, p) \<Rightarrow> (Returns (), t\<lparr>buf := bf, pos := p + 1\<rparr>))
      else if - 4503599627370496 \<le> n \<and> n \<le> SAFE_MAX then
        (let f = (if 0 \<le> n then n * 2 else (- n * 2) - 1)
         in case writeLong_float (buf t) (pos t) f of
              (bf, p) \<Rightarrow> (Returns (), t\<lparr>buf := bf, pos := p + 1\<rparr>))
      else (Unmodelled ''writeLong: binary64 arithmetic beyond 2^53'', t))"

text \<open>\<open>Buffer.alloc(n)\<close> is zero-filled; \<open>new Tap(buf)\<close> starts at position 0.
  \<open>written\<close> is the part of the buffer before the cursor, the bytes an operation
  produced on a fresh cursor (\<open>buffer.subarray(0, tap.pos)\<close>).\<close>

definition alloc :: "nat \<Rightarrow> byte list" where
  "alloc n = replicate n 0"

definition new_Tap :: "byte list \<Rightarrow> tap" where
  "new_Tap b = \<lparr>buf = b, pos = 0\<rparr>"

definition written :: "tap \<Rightarrow> byte list" where
  "written t = take (nat (pos t)) (buf t)"

text \<open>Sequencing: go on with the value of a step that returned.\<close>

definition bind_tap :: "'a outcome \<times> tap \<Rightarrow> ('a \<Rightarrow> tap \<Rightarrow> 'b outcome \<times> tap) \<Rightarrow> 'b outcome \<times> tap" where
  "bind_tap r k = (case r of (Returns x, t) \<Rightarrow> k x t
                           | (Throws e, t) \<Rightarrow> (Throws e, t)
                           | (Unmodelled m, t) \<Rightarrow> (Unmodelled m, t))"

section \<open>Host values\<close>

text \<open>
  Host values: JSON data, \<open>undefined\<close> and \<open>Buffer\<close>s. Numbers are integer-valued
  (see above); an object is the list of its own enumerable properties, in the order of
  \<open>Object.keys\<close>.
\<close>

datatype jsval =
    VUndefined
  | VNull
  | VBool bool
  | VNum int
  | VStr string
  | VBuf "byte list"
  | VArr "jsval list"
  | VObj "(string \<times> jsval) list"

definition isString :: "jsval \<Rightarrow> bool" where
  "isString v = (case v of VStr _ \<Rightarrow> True | _ \<Rightarrow> False)"

definition isNumber :: "jsval \<Rightarrow> bool" where
  "isNumber v = (case v of VNum _ \<Rightarrow> True | _ \<Rightarrow> False)"

text \<open>\<open>utils.isObject\<close>: \<open>typeof obj === 'function' || (typeof obj === 'object' &&
  !!obj)\<close>, which arrays and buffers satisfy as well as plain objects (no value of the
  model is a function).\<close>

definition isObject :: "jsval \<Rightarrow> bool" where
  "isObject v = (case v of VObj _ \<Rightarrow> True | VArr _ \<Rightarrow> True | VBuf _ \<Rightarrow> True | _ \<Rightarrow> False)"

definition isArray :: "jsval \<Rightarrow> bool" where
  "isArray v = (case v of VArr _ \<Rightarrow> True | _ \<Rightarrow> False)"

definition isBuffer :: "jsval \<Rightarrow> bool" where
  "isBuffer v = (case v of VBuf _ \<Rightarrow> True | _ \<Rightarrow> False)"

text \<open>The decimal numeral of an index, as property keys write it.\<close>

function decimal :: "nat \<Rightarrow> string" where
  "decimal n = (if n < 10 then [''0123456789'' ! n]
                else decimal (n div 10) @ [''0123456789'' ! (n mod 10)])"
  by pat_completeness auto
termination
  by (relation "measure id") auto

declare decimal.simps [simp del]

definition index_keys :: "nat \<Rightarrow> string list" where
  "index_keys n = map decimal [0..<n]"

text \<open>\<open>Object.entries\<close>, \<open>Object.keys\<close> and \<open>Object.values\<close>: the own enumerable
  properties.\<close>

fun object_entries :: "jsval \<Rightarrow> (string \<times> jsval) list" where
  "object_entries (VObj kvs) = kvs"
| "object_entries (VArr xs) = zip (index_keys (length xs)) xs"
| "object_entries (VBuf bs) = zip (index_keys (length bs)) (map (\<lambda>b. VNum (uint b)) bs)"
| "object_entries (VStr s) = zip (index_keys (length s)) (map (\<lambda>c. VStr [c]) s)"
| "object_entries _ = []"

definition object_keys :: "jsval \<Rightarrow> string list" where
  "object_keys d = map fst (object_entries d)"

definition object_values :: "jsval \<Rightarrow> jsval list" where
  "object_values d = map snd (object_entries d)"

fun has_length :: "jsval \<Rightarrow> nat option" where
  "has_length (VArr xs) = Some (length xs)"
| "has_length (VBuf bs) = Some (length bs)"
| "has_length (VStr s) = Some (length s)"
| "has_length _ = None"

text \<open>
  The property read \<open>d[k]\<close> looks at the properties of \<open>d\<close> itself and then at those
  of its prototypes. \<open>json_prop\<close> is the value of an own property (or of \<open>length\<close>),
  and \<open>undefined\<close> when there is none: it is \<open>d[k]\<close> for every \<open>k\<close> that \<open>d\<close> does
  not inherit.
\<close>

definition json_prop :: "jsval \<Rightarrow> string \<Rightarrow> jsval" where
  "json_prop d k =
     (case map_of (object_entries d) k of
        Some v \<Rightarrow> v
      | None \<Rightarrow>
          (case has_length d of
             Some n \<Rightarrow> if k = ''length'' then VNum (int n) else VUndefined
           | None \<Rightarrow> VUndefined))"

definition has_own :: "jsval \<Rightarrow> string \<Rightarrow> bool" where
  "has_own d k = (map_of (object_entries d) k \<noteq> None \<or> (has_length d \<noteq> None \<and> k = ''length''))"

text \<open>
  The properties of \<open>Object.prototype\<close>, which every plain object inherits, and those
  that an array inherits from \<open>Array.prototype\<close> and \<open>Object.prototype\<close> (as of
  ECMAScript 2023). Their values are functions of the runtime, and for \<open>__proto__\<close>
  the prototype itself.
\<close>

definition Object_prototype_props :: "string list" where
  "Object_prototype_props =
     [''constructor'', ''toLocaleString'', ''toString'',
      ''hasOwnProperty'', ''isPrototypeOf'', ''propertyIsEnumerable'', ''valueOf'',
      ''__proto__'', ''__defineGetter__'', ''__defineSetter__'', ''__lookupGetter__'',
      ''__lookupSetter__'']"

definition Array_prototype_props :: "string list" where
  "Array_prototype_props =
     [''constructor'', ''at'', ''concat'', ''copyWithin'', ''fill'', ''find'', ''findIndex'',
      ''findLast'', ''findLastIndex'', ''lastIndexOf'', ''pop'', ''push'', ''reverse'',
      ''shift'', ''unshift'', ''slice'', ''sort'', ''splice'', ''includes'', ''indexOf'',
      ''join'', ''keys'', ''entries'', ''values'', ''forEach'', ''filter'', ''flat'',
      ''flatMap'', ''map'', ''every'', ''some'', ''reduce'', ''reduceRight'',
      ''toLocaleString'', ''toString'', ''toReversed'', ''toSorted'', ''toSpliced'', ''with'',
      ''hasOwnProperty'', ''isPrototypeOf'', ''propertyIsEnumerable'', ''valueOf'',
      ''__proto__'', ''__defineGetter__'', ''__defineSetter__'', ''__lookupGetter__'',
      ''__lookupSetter__'']"

text \<open>
  \<open>d[k]\<close>. On \<open>null\<close> and \<open>undefined\<close> it raises a \<open>TypeError\<close>. A property that a
  plain object or an array does not have itself but inherits is a function or an object
  of the runtime, which is no value of the model: the read is \<open>Unmodelled\<close>. So is the
  read of a property that a buffer, a string, a number or a boolean does not have
  itself, whose prototypes are not listed here.
\<close>

definition get_prop :: "jsval \<Rightarrow> string \<Rightarrow> jsval outcome" where
  "get_prop d k =
     (case d of
        VUndefined \<Rightarrow> Throws (JsTypeError ''Cannot read properties of undefined'')
      | VNull \<Rightarrow> Throws (JsTypeError ''Cannot read properties of null'')
      | VObj kvs \<Rightarrow>
          if has_own d k then Returns (json_prop d k)
          else if k \<in> set Object_prototype_props
            then Unmodelled ''a property inherited from Object.prototype''
          else Returns VUndefined
      | VArr xs \<Rightarrow>
          if has_own d k then Returns (json_prop d k)
          else if k \<in> set Array_prototype_props
            then Unmodelled ''a property inherited from Array.prototype''
          else Returns VUndefined
      | _ \<Rightarrow>
          if has_own d k then Returns (json_prop d k)
          else Unmodelled ''a property of a buffer, string, number or boolean that is not its own'')"

text \<open>
  The order of the keys of an object: the keys that are array indices (the decimal
  numerals of the integers below \<open>2 ^ 32 - 1\<close>) come first, in ascending order, then
  the other keys in the order in which they were added.
\<close>

definition is_digit :: "char \<Rightarrow> bool" where
  "is_digit c = (c \<in> set ''0123456789'')"

definition digit_of :: "char \<Rightarrow> nat" where
  "digit_of c = of_char c - 48"

definition numeral_of :: "string \<Rightarrow> nat" where
  "numeral_of s = foldl (\<lambda>n c. 10 * n + digit_of c) 0 s"

definition is_index :: "string \<Rightarrow> bool" where
  "is_index k = (k \<noteq> [] \<and> list_all is_digit k \<and> (k = ''0'' \<or> hd k \<noteq> CHR ''0'')
                 \<and> numeral_of k < 4294967295)"

text \<open>\<open>obj[k] = v\<close> on a plain object, for a key other than \<open>__proto__\<close> (which
  the callers set apart, since that assignment changes the prototype): an existing key
  keeps its place, a new key goes where the order of keys puts it.\<close>

fun obj_replace :: "(string \<times> 'v) list \<Rightarrow> string \<Rightarrow> 'v \<Rightarrow> (string \<times> 'v) list" where
  "obj_replace [] k v = []"
| "obj_replace ((k', v') # kvs) k v = (if k' = k then (k, v) # kvs else (k', v') # obj_replace kvs k v)"

fun obj_insert :: "(string \<times> 'v) list \<Rightarrow> string \<Rightarrow> 'v \<Rightarrow> (string \<times> 'v) list" where
  "obj_insert [] k v = [(k, v)]"
| "obj_insert ((k', v') # kvs) k v =
     (if is_index k' \<and> numeral_of k' < numeral_of k then (k', v') # obj_insert kvs k v
      else (k, v) # (k', v') # kvs)"

definition obj_set :: "(string \<times> 'v) list \<Rightarrow> string \<Rightarrow> 'v \<Rightarrow> (string \<times> 'v) list" where
  "obj_set kvs k v =
     (if k \<in> set (map fst kvs) then obj_replace kvs k v
      else if is_index k then obj_insert kvs k v
      else kvs @ [(k, v)])"

text \<open>A read \<open>dict[k]\<close> from an object that the library fills itself (by \<open>obj_set\<close>,
  from the empty object): an own property, a property inherited from
  \<open>Object.prototype\<close>, or \<open>undefined\<close>.\<close>

datatype 'v lookup = Own 'v | Inherited | Absent

definition dict_get :: "(string \<times> 'v) list \<Rightarrow> string \<Rightarrow> 'v lookup" where
  "dict_get dict k =
     (case map_of dict k of
        Some v \<Rightarrow> Own v
      | None \<Rightarrow> if k \<in> set Object_prototype_props then Inherited else Absent)"

section \<open>Constants (constants.js)\<close>

definition PRIMITIVE_TYPES :: "string list" where
  "PRIMITIVE_TYPES = [''null'', ''boolean'', ''string'', ''bytes'', ''int'', ''long'', ''float'', ''double'']"

definition NAMED_TYPES :: "string list" where
  "NAMED_TYPES = [''fixed'', ''enum'', ''record'', ''error'']"

definition VALID_TYPES :: "string list" where
  "VALID_TYPES = [''array'', ''map'', ''union'', ''request'', ''error_union'']
                 @ PRIMITIVE_TYPES @ NAMED_TYPES"

definition VALID_FIELD_SORT_ORDERS :: "string list" where
  "VALID_FIELD_SORT_ORDERS = [''ascending'', ''descending'', ''ignore'']"

text \<open>\<open>list.includes(v)\<close> for a list of strings.\<close>

definition js_includes :: "string list \<Rightarrow> jsval \<Rightarrow> bool" where
  "js_includes xs v = (case v of VStr s \<Rightarrow> s \<in> set xs | _ \<Rightarrow> False)"

text \<open>
  The operator \<open>key in array\<close> of JavaScript asks whether \<open>key\<close> names a property of
  the array: an index below its length, \<open>length\<close>, or a property inherited from
  \<open>Array.prototype\<close> and \<open>Object.prototype\<close>. It does not look at the elements.
\<close>

definition js_in_array :: "string \<Rightarrow> 'a list \<Rightarrow> bool" where
  "js_in_array k xs =
     (k \<in> set (index_keys (length xs)) \<or> k = ''length'' \<or> k \<in> set Array_prototype_props)"

section \<open>Names (schema.js)\<close>

text \<open>
  \<open>new Name(nameAttr, spaceAttr, defaultSpace).fullname\<close>. An argument is a string or
  \<open>undefined\<close> (\<open>None\<close>); every caller in the library passes such values. With
  \<open>nameAttr\<close> undefined the constructor passes its checks and fails at
  \<open>nameAttr.indexOf\<close>.
\<close>

definition Name_fullname :: "string option \<Rightarrow> string option \<Rightarrow> string option \<Rightarrow> error + string" where
  "Name_fullname nameAttr spaceAttr defaultSpace =
     (if nameAttr = Some [] then Inl (Err ''Name must be non-empty string or None.'')
      else if spaceAttr = Some [] then Inl (Err ''Space must be non-empty string or None.'')
      else if defaultSpace = Some [] then Inl (Err ''Default must be non-empty string or None.'')
      else case nameAttr of
        None \<Rightarrow> Inl (JsTypeError ''Cannot read properties of undefined (reading indexOf)'')
      | Some n \<Rightarrow>
          if CHR ''.'' \<notin> set n then
            (case spaceAttr of
               Some sp \<Rightarrow> Inr (sp @ ''.'' @ n)
             | None \<Rightarrow>
                 (case defaultSpace of
                    Some d \<Rightarrow> Inr (d @ ''.'' @ n)
                  | None \<Rightarrow> Inr n))
          else Inr n)"

text \<open>\<open>Name.getSpace\<close>: \<open>this._full.split('.', 1).reverse()[0]\<close> is the part of the
  fullname before its first dot, taken when the first dot is not at index 0.\<close>

definition getSpace :: "string \<Rightarrow> string option" where
  "getSpace full =
     (if CHR ''.'' \<in> set full \<and> takeWhile (\<lambda>c. c \<noteq> CHR ''.'') full \<noteq> []
      then Some (takeWhile (\<lambda>c. c \<noteq> CHR ''.'') full) else None)"

record 's Names =
  names :: "string \<rightharpoonup> 's"
  defaultNamespace :: "string option"

definition new_Names :: "string option \<Rightarrow> 's Names" where
  "new_Names d = \<lparr>names = Map.empty, defaultNamespace = d\<rparr>"

definition hasName :: "string option \<Rightarrow> string option \<Rightarrow> 's Names \<Rightarrow> error + bool" where
  "hasName nameAttr spaceAttr N =
     (case Name_fullname nameAttr spaceAttr (defaultNamespace N) of
        Inl e \<Rightarrow> Inl e
      | Inr test \<Rightarrow> Inr (names N test \<noteq> None))"

definition getName :: "string option \<Rightarrow> string option \<Rightarrow> 's Names \<Rightarrow> error + 's option" where
  "getName nameAttr spaceAttr N =
     (case Name_fullname nameAttr spaceAttr (defaultNamespace N) of
        Inl e \<Rightarrow> Inl e
      | Inr test \<Rightarrow> Inr (names N test))"

text \<open>\<open>Names.addName\<close> returns the \<open>Name\<close> it added (here its fullname) and the
  updated registry.\<close>

definition addName :: "string option \<Rightarrow> string option \<Rightarrow> 's \<Rightarrow> 's Names \<Rightarrow> error + (string \<times> 's Names)" where
  "addName nameAttr spaceAttr newSchema N =
     (case Name_fullname nameAttr spaceAttr (defaultNamespace N) of
        Inl e \<Rightarrow> Inl e
      | Inr full \<Rightarrow>
          if js_in_array full VALID_TYPES then Inl (Err (full @ '' is a reserved type name.''))
          else if names N full \<noteq> None then Inl (Err (''The name '' @ full @ '' is already in use.''))
          else Inr (full, N\<lparr>names := (names N)(full \<mapsto> newSchema)\<rparr>))"

section \<open>Schemas (schema.js)\<close>

text \<open>
  A schema object is modelled by the tree of what it refers to. \<open>type\<close> strings are
  the tags \<open>ptype\<close>, \<open>rtype\<close> and \<open>utype\<close>; the codec tests for \<open>request\<close> and
  \<open>error_union\<close> although the parser builds no schema of these types. Properties other
  than those below, documentation and \<open>logicalType\<close> annotations are left out: the
  codec is modelled with no logical type registered, where it never looks at them.

  A record registers itself before its fields are parsed, so a field can refer to the
  record that is being defined: the schema object then contains itself. In the tree
  that reference is the leaf \<open>Recursive\<close>, which carries the \<open>type\<close> and the fullname
  of the record (all that \<open>matchSchemas\<close> and \<open>UnionSchema\<close> read of it) and stands
  for the whole record; what the codec does when it reaches such a leaf is
  \<open>Unmodelled\<close>.
\<close>

datatype ptype = PNull | PBoolean | PString | PBytes | PInt | PLong | PFloat | PDouble

datatype rtype = TRecord | TError | TRequest

datatype utype = TUnion | TErrorUnion

datatype schema =
    Primitive ptype
  | Fixed string nat
  | Enum string "string list"
  | Record rtype string "field list"
  | Array schema
  | Map schema
  | Union utype "schema list"
  | Recursive rtype string
and field =
    Field (fname: string) (ftype: schema) (hasDefault: bool) (fdefault: jsval)

fun ptype_name :: "ptype \<Rightarrow> string" where
  "ptype_name PNull = ''null''"
| "ptype_name PBoolean = ''boolean''"
| "ptype_name PString = ''string''"
| "ptype_name PBytes = ''bytes''"
| "ptype_name PInt = ''int''"
| "ptype_name PLong = ''long''"
| "ptype_name PFloat = ''float''"
| "ptype_name PDouble = ''double''"

definition ptype_of :: "string \<Rightarrow> ptype option" where
  "ptype_of s = map_of (map (\<lambda>p. (ptype_name p, p))
                   [PNull, PBoolean, PString, PBytes, PInt, PLong, PFloat, PDouble]) s"

fun rtype_name :: "rtype \<Rightarrow> string" where
  "rtype_name TRecord = ''record''"
| "rtype_name TError = ''error''"
| "rtype_name TRequest = ''request''"

text \<open>\<open>schema.type\<close>\<close>

fun type_of :: "schema \<Rightarrow> string" where
  "type_of (Primitive p) = ptype_name p"
| "type_of (Fixed _ _) = ''fixed''"
| "type_of (Enum _ _) = ''enum''"
| "type_of (Record rt _ _) = rtype_name rt"
| "type_of (Array _) = ''array''"
| "type_of (Map _) = ''map''"
| "type_of (Union TUnion _) = ''union''"
| "type_of (Union TErrorUnion _) = ''error_union''"
| "type_of (Recursive rt _) = rtype_name rt"

text \<open>\<open>schema.fullname\<close>: set by \<open>PrimitiveSchema\<close> and \<open>NamedSchema\<close> only.\<close>

fun fullname :: "schema \<Rightarrow> string option" where
  "fullname (Primitive p) = Some (ptype_name p)"
| "fullname (Fixed n _) = Some n"
| "fullname (Enum n _) = Some n"
| "fullname (Record _ n _) = Some n"
| "fullname (Recursive _ n) = Some n"
| "fullname _ = None"

subsection \<open>The parser\<close>

definition str_opt :: "jsval \<Rightarrow> string option" where
  "str_opt v = (case v of VStr s \<Rightarrow> Some s | _ \<Rightarrow> None)"

text \<open>
  The constructor of \<open>NamedSchema\<close>, after the checks of the subclass: it registers the
  schema under its fullname. \<open>mk\<close> builds the object being registered from that
  fullname. When \<open>namespace\<close> is not \<open>undefined\<close> the constructor calls
  \<open>newName.get_space()\<close>, a method \<open>Name\<close> does not have (its method is \<open>getSpace\<close>).
\<close>

definition NamedSchema :: "(string \<Rightarrow> schema) \<Rightarrow> jsval \<Rightarrow> string option \<Rightarrow> schema Names
    \<Rightarrow> error + (string \<times> schema Names)" where
  "NamedSchema mk name namespace N =
     (if name = VUndefined then Inl (Err ''Named Schemas must have a non-empty name.'')
      else if \<not> isString name then Inl (Err ''The name property must be a string.'')
      else case Name_fullname (str_opt name) namespace (defaultNamespace N) of
        Inl e \<Rightarrow> Inl e
      | Inr full \<Rightarrow>
          (case addName (str_opt name) namespace (mk full) N of
             Inl e \<Rightarrow> Inl e
           | Inr (full', N') \<Rightarrow>
               if namespace \<noteq> None then Inl (JsTypeError ''newName.get_space is not a function'')
               else Inr (full', N')))"

text \<open>The check \<open>UnionSchema\<close> makes before it adds a branch.\<close>

definition union_push :: "schema \<Rightarrow> schema list \<Rightarrow> error + schema list" where
  "union_push newSchema schemaObjects =
     (if type_of newSchema \<in> set VALID_TYPES \<and> type_of newSchema \<notin> set NAMED_TYPES
         \<and> type_of newSchema \<in> set (map type_of schemaObjects)
      then Inl (Err (type_of newSchema @ '' type already in Union''))
      else if type_of newSchema = ''union'' then Inl (Err ''Unions cannot contain other unions.'')
      else Inr (schemaObjects @ [newSchema]))"

text \<open>\<open>try { ... } catch (e) { throw new Error(message) }\<close>\<close>

definition rethrow :: "string \<Rightarrow> error + 'a \<Rightarrow> error + 'a" where
  "rethrow msg r = (case r of Inl e \<Rightarrow> Inl (Err msg) | Inr x \<Rightarrow> Inr x)"

text \<open>
  A type given inside a field, an array, a map or a union: a string that names a
  registered schema refers to it; everything else is parsed by \<open>makeAvscObject\<close>, whose
  result is the last argument.
\<close>

definition named_or :: "string \<Rightarrow> jsval \<Rightarrow> schema Names \<Rightarrow> error + (schema \<times> schema Names)
    \<Rightarrow> error + (schema \<times> schema Names)" where
  "named_or msg j N made =
     (if isString j then
        (case hasName (str_opt j) None N of
           Inl e \<Rightarrow> Inl e
         | Inr True \<Rightarrow>
             (case getName (str_opt j) None N of
                Inl e \<Rightarrow> Inl e
              | Inr None \<Rightarrow> rethrow msg made
              | Inr (Some sch) \<Rightarrow> Inr (sch, N))
         | Inr False \<Rightarrow> rethrow msg made)
      else rethrow msg made)"

text \<open>\<open>makeAvscObject\<close> on JSON data that is neither an array nor an object.\<close>

definition makeAvscObject_atom :: "jsval \<Rightarrow> error + schema" where
  "makeAvscObject_atom j =
     (if js_includes PRIMITIVE_TYPES j then
        (case str_opt j of
           Some s \<Rightarrow> (case ptype_of s of Some p \<Rightarrow> Inr (Primitive p) | None \<Rightarrow> Inl (Err ''not a valid primitive type.''))
         | None \<Rightarrow> Inl (Err ''not a valid primitive type.''))
      else Inl (Err ''Could not make an Avro Schema object.''))"

text \<open>The checks of the \<open>Field\<close> constructor that precede the field's type.\<close>

definition Field_checks :: "jsval \<Rightarrow> jsval \<Rightarrow> error option" where
  "Field_checks name order =
     (if name = VUndefined then Some (Err ''Fields must have a non-empty name.'')
      else if \<not> isString name then Some (Err ''The name property must be a string.'')
      else if order \<noteq> VUndefined \<and> \<not> js_includes VALID_FIELD_SORT_ORDERS order
        then Some (Err ''The order property is not valid.'')
      else None)"

lemma size_map_of_le:
  "map_of kvs k = Some (v::jsval) \<Longrightarrow> size v \<le> size_list (size_prod (\<lambda>x. 0) size) kvs"
  by (induction kvs) (auto split: if_splits)

lemma size_mem_less: "(v::jsval) \<in> set xs \<Longrightarrow> size v < size_list size xs"
  by (induction xs) auto

lemma size_zip_less:
  "map_of (zip ks xs) k = Some (v::jsval) \<Longrightarrow> size v < size_list size xs"
  by (auto dest!: map_of_SomeD set_zip_rightD size_mem_less)

lemma size_buf_entries:
  "map_of (zip ks (map (\<lambda>b. VNum (f b)) bs)) k = Some v \<Longrightarrow> size v = 0"
  by (auto dest!: map_of_SomeD set_zip_rightD)

lemma size_str_entries:
  "map_of (zip ks (map (\<lambda>c. VStr [c]) cs)) k = Some v \<Longrightarrow> size v = 0"
  by (auto dest!: map_of_SomeD set_zip_rightD)

lemma size_json_prop_le: "size (json_prop d k) \<le> size d"
proof (cases d)
  case (VArr xs)
  then show ?thesis
    by (auto simp: json_prop_def split: option.splits dest!: size_zip_less)
next
  case (VObj kvs)
  then show ?thesis
    by (auto simp: json_prop_def split: option.splits dest!: size_map_of_le)
next
  case (VBuf bs)
  then show ?thesis
    by (auto simp: json_prop_def split: option.splits dest!: size_buf_entries)
next
  case (VStr cs)
  then show ?thesis
    by (auto simp: json_prop_def split: option.splits dest!: size_str_entries)
qed (simp_all add: json_prop_def)

lemma size_json_prop_less: "size (json_prop (VObj kvs) k) < size (VObj kvs)"
  by (auto simp: json_prop_def split: option.splits dest!: size_map_of_le)

lemma size_json_prop_obj3:
  "3 * size (json_prop (VObj kvs) k) \<le> Suc (3 * size_list (size_prod (\<lambda>x. 0) size) kvs)"
  using size_json_prop_less [of kvs k] by simp

lemma size_json_prop_sub3:
  assumes "json_prop (VObj kvs) k = VObj x"
  shows "Suc (Suc (3 * size_list (size_prod (\<lambda>x. 0) size) x))
           < 3 * size_list (size_prod (\<lambda>x. 0) size) kvs"
  using size_json_prop_less [of kvs k] assms by simp

lemma size_json_prop_fld3: "3 * size (json_prop f k) \<le> 3 * size f + n"
  using size_json_prop_le [of f k] by simp

lemma size_json_prop_arr:
  assumes "json_prop (VObj kvs) k = VArr xs"
  shows "size_list size xs + 2 \<le> size (VObj kvs)"
  using size_json_prop_less [of kvs k] assms by simp

definition FixedSchema :: "jsval \<Rightarrow> string option \<Rightarrow> jsval \<Rightarrow> schema Names
    \<Rightarrow> error + (schema \<times> schema Names)" where
  "FixedSchema name namespace sz N =
     (case sz of
        VNum n \<Rightarrow>
          if n < 0 then Inl (Err ''Fixed Schema requires a valid positive integer for size property.'')
          else (case NamedSchema (\<lambda>full. Fixed full (nat n)) name namespace N of
                  Inl e \<Rightarrow> Inl e
                | Inr (full, N') \<Rightarrow> Inr (Fixed full (nat n), N'))
      | _ \<Rightarrow> Inl (Err ''Fixed Schema requires a valid positive integer for size property.''))"

definition EnumSchema :: "jsval \<Rightarrow> string option \<Rightarrow> jsval \<Rightarrow> schema Names
    \<Rightarrow> error + (schema \<times> schema Names)" where
  "EnumSchema name namespace symbols N =
     (case symbols of
        VArr xs \<Rightarrow>
          if \<not> list_all isString xs then Inl (Err ''Enum Schema requires all symbols to be JSON strings.'')
          else if \<not> distinct xs then Inl (Err ''Duplicate symbol'')
          else (case NamedSchema (\<lambda>full. Enum full (map (\<lambda>x. the (str_opt x)) xs)) name namespace N of
                  Inl e \<Rightarrow> Inl e
                | Inr (full, N') \<Rightarrow> Inr (Enum full (map (\<lambda>x. the (str_opt x)) xs), N'))
      | _ \<Rightarrow> Inl (Err ''Enum Schema requires a JSON array for the symbols property.''))"

text \<open>
  \<open>makeAvscObject\<close>, with the constructors of \<open>RecordSchema\<close>, \<open>ArraySchema\<close>,
  \<open>MapSchema\<close>, \<open>UnionSchema\<close> and \<open>ErrorUnionSchema\<close>, the loop of
  \<open>RecordSchema.makeFieldObjects\<close> and the loop of \<open>UnionSchema\<close> over its branches.
  The registry is threaded through. A record is registered before its fields are
  parsed: while they are parsed its name is bound to the leaf \<open>Recursive\<close>, and
  afterwards to the finished record. The properties that the parser reads (\<open>type\<close>,
  \<open>name\<close>, \<open>namespace\<close>, \<open>size\<close>, \<open>symbols\<close>, \<open>fields\<close>, \<open>items\<close>,
  \<open>declared_errors\<close>, \<open>order\<close>, and \<open>values\<close> of a plain object) are inherited
  by no object, array or buffer, so each read is \<open>json_prop\<close>.
\<close>

function makeAvscObject :: "jsval \<Rightarrow> schema Names \<Rightarrow> error + (schema \<times> schema Names)"
  and makeTypeSchema :: "string \<Rightarrow> jsval \<Rightarrow> schema Names \<Rightarrow> error + (schema \<times> schema Names)"
  and makeFieldObjects :: "jsval list \<Rightarrow> schema Names \<Rightarrow> field list \<Rightarrow> error + (field list \<times> schema Names)"
  and unionSchemas :: "jsval list \<Rightarrow> schema Names \<Rightarrow> schema list \<Rightarrow> error + (schema list \<times> schema Names)"
where
  "makeAvscObject VUndefined N = (case makeAvscObject_atom VUndefined of Inl e \<Rightarrow> Inl e | Inr sc \<Rightarrow> Inr (sc, N))"
| "makeAvscObject VNull N = (case makeAvscObject_atom VNull of Inl e \<Rightarrow> Inl e | Inr sc \<Rightarrow> Inr (sc, N))"
| "makeAvscObject (VBool b) N = (case makeAvscObject_atom (VBool b) of Inl e \<Rightarrow> Inl e | Inr sc \<Rightarrow> Inr (sc, N))"
| "makeAvscObject (VNum n) N = (case makeAvscObject_atom (VNum n) of Inl e \<Rightarrow> Inl e | Inr sc \<Rightarrow> Inr (sc, N))"
| "makeAvscObject (VStr s) N = (case makeAvscObject_atom (VStr s) of Inl e \<Rightarrow> Inl e | Inr sc \<Rightarrow> Inr (sc, N))"
| "makeAvscObject (VBuf bs) N = Inl (Err ''No type property'')"
| "makeAvscObject (VArr xs) N =
     (case unionSchemas xs N [] of
        Inl e \<Rightarrow> Inl e
      | Inr (ss, N') \<Rightarrow> Inr (Union TUnion ss, N'))"
| "makeAvscObject (VObj kvs) N =
     (let type = json_prop (VObj kvs) ''type'' in
      if js_includes PRIMITIVE_TYPES type then
        (case makeAvscObject_atom type of Inl e \<Rightarrow> Inl e | Inr sc \<Rightarrow> Inr (sc, N))
      else if js_includes NAMED_TYPES type then
        (let name = json_prop (VObj kvs) ''name'';
             namespace = (if json_prop (VObj kvs) ''namespace'' = VUndefined then None
                          else defaultNamespace N)
         in if type = VStr ''fixed'' then FixedSchema name namespace (json_prop (VObj kvs) ''size'') N
            else if type = VStr ''enum'' then EnumSchema name namespace (json_prop (VObj kvs) ''symbols'') N
            else
              (let rt = (if type = VStr ''record'' then TRecord else TError) in
               if json_prop (VObj kvs) ''fields'' = VUndefined
                 then Inl (Err ''Record schema requires a non-empty fields property.'')
               else case json_prop (VObj kvs) ''fields'' of
                 VArr fs \<Rightarrow>
                   (case NamedSchema (\<lambda>full. Recursive rt full) name namespace N of
                      Inl e \<Rightarrow> Inl e
                    | Inr (full, N1) \<Rightarrow>
                        (case (if rt = TRecord
                               then (case Name_fullname (str_opt name) namespace (defaultNamespace N1) of
                                       Inl e \<Rightarrow> Inl e
                                     | Inr f \<Rightarrow> Inr (N1\<lparr>defaultNamespace := getSpace f\<rparr>))
                               else Inr N1) of
                           Inl e \<Rightarrow> Inl e
                         | Inr N2 \<Rightarrow>
                             (case makeFieldObjects fs N2 [] of
                                Inl e \<Rightarrow> Inl e
                              | Inr (fos, N3) \<Rightarrow>
                                  (let r = Record rt full fos;
                                       N4 = N3\<lparr>names := (names N3)(full \<mapsto> r)\<rparr>
                                   in Inr (r, if rt = TRecord
                                              then N4\<lparr>defaultNamespace := defaultNamespace N1\<rparr>
                                              else N4)))))
               | _ \<Rightarrow> Inl (Err ''Fields property must be a list of Avro schemas.'')))
      else if js_includes VALID_TYPES type then
        (if type = VStr ''array'' then
           (case makeTypeSchema ''Items schema not a valid Avro schema'' (json_prop (VObj kvs) ''items'') N of
              Inl e \<Rightarrow> Inl e
            | Inr (it, N') \<Rightarrow> Inr (Array it, N'))
         else if type = VStr ''map'' then
           (case makeTypeSchema ''Values schema not a valid Avro schema.'' (json_prop (VObj kvs) ''values'') N of
              Inl e \<Rightarrow> Inl e
            | Inr (vs, N') \<Rightarrow> Inr (Map vs, N'))
         else if type = VStr ''error_union'' then
           (case named_or ''Union item must be a valid Avro schema'' (VStr ''string'') N
                   (case makeAvscObject_atom (VStr ''string'') of Inl e \<Rightarrow> Inl e | Inr sc \<Rightarrow> Inr (sc, N)) of
              Inl e \<Rightarrow> Inl e
            | Inr (sc, N1) \<Rightarrow>
                (case union_push sc [] of
                   Inl e \<Rightarrow> Inl e
                 | Inr acc \<Rightarrow>
                     (case (case json_prop (VObj kvs) ''declared_errors'' of
                              VArr ds \<Rightarrow> unionSchemas ds N1 acc
                            | _ \<Rightarrow> unionSchemas [json_prop (VObj kvs) ''declared_errors''] N1 acc) of
                        Inl e \<Rightarrow> Inl e
                      | Inr (ss, N') \<Rightarrow> Inr (Union TUnion ss, N'))))
         else Inl (Err ''Unknown Valid Type''))
      else if type = VUndefined then Inl (Err ''No type property'')
      else Inl (Err ''Undefined type''))"
| "makeTypeSchema msg j N = named_or msg j N (makeAvscObject j N)"
| "makeFieldObjects [] N acc = Inr (acc, N)"
| "makeFieldObjects (f # fs) N acc =
     (if \<not> isObject f then Inl (Err ''Not a valid field'')
      else case Field_checks (json_prop f ''name'') (json_prop f ''order'') of
        Some e \<Rightarrow> Inl e
      | None \<Rightarrow>
          (case makeTypeSchema ''Type property not a valid Avro schema'' (json_prop f ''type'') N of
             Inl e \<Rightarrow> Inl e
           | Inr (ts, N') \<Rightarrow>
               (case str_opt (json_prop f ''name'') of
                  None \<Rightarrow> Inl (Err ''The name property must be a string.'')
                | Some nm \<Rightarrow>
                    if nm \<in> set (map fname acc) then Inl (Err ''Field name already in use.'')
                    else makeFieldObjects fs N'
                           (acc @ [Field nm ts (map_of (object_entries f) ''default'' \<noteq> None)
                                     (json_prop f ''default'')]))))"
| "unionSchemas [] N acc = Inr (acc, N)"
| "unionSchemas (x # xs) N acc =
     (case makeTypeSchema ''Union item must be a valid Avro schema'' x N of
        Inl e \<Rightarrow> Inl e
      | Inr (sc, N') \<Rightarrow>
          (case union_push sc acc of
             Inl e \<Rightarrow> Inl e
           | Inr acc' \<Rightarrow> unionSchemas xs N' acc'))"
  by pat_completeness auto
termination
  apply (relation "measure (case_sum
          (case_sum (\<lambda>(j, N). 3 * size j + 1) (\<lambda>(msg, j, N). 3 * size j + 2))
          (case_sum (\<lambda>(fs, N, acc). 3 * size_list size fs)
                    (\<lambda>(xs, N, acc). 3 * size_list size xs)))")
  apply (auto dest!: size_json_prop_arr simp: size_json_prop_sub3)
  subgoal for kvs using size_json_prop_less [of kvs "''items''"] by simp
  subgoal for kvs using size_json_prop_less [of kvs "''values''"] by simp
  subgoal for f fs using size_json_prop_le [of f "''type''"] by simp
  done

text \<open>\<open>parse\<close> on JSON data (the text of a schema is first read by \<open>JSON.parse\<close>).\<close>

definition parse :: "jsval \<Rightarrow> error + schema" where
  "parse jsonData =
     (case makeAvscObject jsonData (new_Names None) of
        Inl e \<Rightarrow> Inl e
      | Inr (sc, N) \<Rightarrow> Inr sc)"

section \<open>The other primitives of the buffer cursor\<close>

text \<open>
  A primitive that can raise returns its outcome together with the cursor, which keeps
  the position the primitive gave it before it raised. The conversions between a number
  and its IEEE-754 bytes (\<open>readFloatLE\<close>, \<open>writeFloatLE\<close>, \<open>readDoubleLE\<close>,
  \<open>writeDoubleLE\<close>) belong to the runtime and are not interpreted: \<open>readFloat\<close> and
  \<open>readDouble\<close> return the bytes they read, \<open>writeFloat\<close> and \<open>writeDouble\<close> take the
  bytes to store. Strings are ASCII text, one byte for each character; the UTF-8 coder
  of the runtime is not interpreted beyond ASCII (\<open>Unmodelled\<close>).
\<close>

definition readBoolean :: "tap \<Rightarrow> bool \<times> tap" where
  "readBoolean t = (num_of (buf_get (buf t) (pos t)) \<noteq> 0, t\<lparr>pos := pos t + 1\<rparr>)"

definition skipBoolean :: "tap \<Rightarrow> tap" where
  "skipBoolean t = t\<lparr>pos := pos t + 1\<rparr>"

definition writeBoolean :: "bool \<Rightarrow> tap \<Rightarrow> tap" where
  "writeBoolean b t = t\<lparr>buf := buf_set (buf t) (pos t) (if b then 1 else 0), pos := pos t + 1\<rparr>"

text \<open>\<open>skipLong\<close>: \<open>while (buf[this.pos++] & 0x80) { }\<close>; it returns the new position.\<close>

function skipLong_loop :: "byte list \<Rightarrow> int \<Rightarrow> int" where
  "skipLong_loop bf p =
     (if js_and (num_of (buf_get bf p)) 0x80 \<noteq> 0 then skipLong_loop bf (p + 1) else p + 1)"
  by pat_completeness auto
termination
proof (relation "measure (\<lambda>(bf, p). nat (int (length bf) - p))", goal_cases)
  case 1
  show ?case by simp
next
  case (2 bf p)
  have "buf_get bf p \<noteq> None"
  proof
    assume "buf_get bf p = None"
    then have "js_and (num_of (buf_get bf p)) 0x80 = 0" by (rule buf_get_None_num)
    with 2 show False by simp
  qed
  then have "0 \<le> p \<and> p < int (length bf)"
    by (auto simp: buf_get_def split: if_splits)
  then show ?case by simp
qed

declare skipLong_loop.simps [simp del]

definition skipLong :: "tap \<Rightarrow> tap" where
  "skipLong t = t\<lparr>pos := skipLong_loop (buf t) (pos t)\<rparr>"

text \<open>The bytes \<open>p, ..., p + n - 1\<close> of a buffer, and a buffer with \<open>xs\<close> stored from
  \<open>p\<close> on (both for \<open>0 \<le> p\<close>).\<close>

definition buf_slice :: "byte list \<Rightarrow> int \<Rightarrow> nat \<Rightarrow> byte list" where
  "buf_slice bf p n = take n (drop (nat p) bf)"

definition buf_store :: "byte list \<Rightarrow> int \<Rightarrow> byte list \<Rightarrow> byte list" where
  "buf_store bf p xs = take (length bf) (take (nat p) bf @ xs @ drop (nat p + length xs) bf)"

text \<open>\<open>readFloat\<close> and \<open>readDouble\<close> (\<open>n\<close> is 4 or 8): \<open>undefined\<close> past the end; the
  runtime's reader raises on a negative offset.\<close>

definition readBytesLE :: "nat \<Rightarrow> tap \<Rightarrow> byte list option outcome \<times> tap" where
  "readBytesLE n t =
     (let p = pos t; t' = t\<lparr>pos := p + int n\<rparr>
      in if pos t' > int (length (buf t)) then (Returns None, t')
         else if p < 0 then (Throws (JsRangeError ''offset is out of range''), t')
         else (Returns (Some (buf_slice (buf t) p n)), t'))"

definition readFloat :: "tap \<Rightarrow> byte list option outcome \<times> tap" where
  "readFloat = readBytesLE 4"

definition readDouble :: "tap \<Rightarrow> byte list option outcome \<times> tap" where
  "readDouble = readBytesLE 8"

definition skipFloat :: "tap \<Rightarrow> tap" where
  "skipFloat t = t\<lparr>pos := pos t + 4\<rparr>"

definition skipDouble :: "tap \<Rightarrow> tap" where
  "skipDouble t = t\<lparr>pos := pos t + 8\<rparr>"




text \<open>\<open>readFixed(len)\<close>: the position moves first; \<open>undefined\<close> past the end;
  \<open>Buffer.alloc(len)\<close> raises for a negative \<open>len\<close>, and \<open>copy\<close> for a negative source
  offset.\<close>

definition readFixed :: "int \<Rightarrow> tap \<Rightarrow> byte list option outcome \<times> tap" where
  "readFixed len t =
     (let p = pos t; t' = t\<lparr>pos := p + len\<rparr>
      in if pos t' > int (length (buf t)) then (Returns None, t')
         else if len < 0 then (Throws (JsRangeError ''The argument size is invalid''), t')
         else if p < 0 then (Throws (JsRangeError ''sourceStart is out of range''), t')
         else (Returns (Some (buf_slice (buf t) p (nat len))), t'))"

definition skipFixed :: "int \<Rightarrow> tap \<Rightarrow> tap" where
  "skipFixed len t = t\<lparr>pos := pos t + len\<rparr>"

text \<open>\<open>writeFixed(buf, len)\<close>: \<open>len = len || buf.length\<close>; \<open>copy\<close> stores at most the
  bytes \<open>buf\<close> has.\<close>

definition writeFixed :: "byte list \<Rightarrow> nat \<Rightarrow> tap \<Rightarrow> unit outcome \<times> tap" where
  "writeFixed bs len t =
     (let l = (if len = 0 then length bs else len);
          p = pos t; t' = t\<lparr>pos := p + int l\<rparr>
      in if pos t' > int (length (buf t)) then (Returns (), t')
         else if p < 0 then (Throws (JsRangeError ''targetStart is out of range''), t')
         else (Returns (), t'\<lparr>buf := buf_store (buf t) p (take l bs)\<rparr>))"

text \<open>\<open>readBytes\<close>, \<open>skipBytes\<close>, \<open>skipString\<close> and \<open>writeBytes\<close> go on from
  \<open>readLong\<close> and \<open>writeLong\<close>.\<close>

definition readBytes :: "tap \<Rightarrow> byte list option outcome \<times> tap" where
  "readBytes t = bind_tap (readLong t) (\<lambda>len t1. readFixed len t1)"

definition skipBytes :: "tap \<Rightarrow> unit outcome \<times> tap" where
  "skipBytes t = bind_tap (readLong t) (\<lambda>len t1. (Returns (), t1\<lparr>pos := pos t1 + len\<rparr>))"

definition writeBytes :: "byte list \<Rightarrow> tap \<Rightarrow> unit outcome \<times> tap" where
  "writeBytes bs t =
     bind_tap (writeLong (int (length bs)) t) (\<lambda>u t1. writeFixed bs (length bs) t1)"

definition ascii :: "string \<Rightarrow> bool" where
  "ascii s = list_all (\<lambda>c. of_char c < (128::nat)) s"

definition bytes_of :: "string \<Rightarrow> byte list" where
  "bytes_of s = map (\<lambda>c. of_char c) s"

definition string_of :: "byte list \<Rightarrow> string" where
  "string_of bs = map (\<lambda>b. char_of (unat b)) bs"

text \<open>\<open>readString\<close> (the \<open>utf8Slice\<close> variant): \<open>utf8Slice(pos, pos + len)\<close> raises for a
  negative bound and gives the empty string for an empty range.\<close>

definition readString :: "tap \<Rightarrow> string option outcome \<times> tap" where
  "readString t =
     bind_tap (readLong t) (\<lambda>len t1.
        (let p = pos t1; t' = t1\<lparr>pos := p + len\<rparr>
         in if pos t' > int (length (buf t)) then (Returns None, t')
            else if p < 0 \<or> p + len < 0 then (Throws (JsRangeError ''Index out of range''), t')
            else if len \<le> 0 then (Returns (Some []), t')
            else if list_all (\<lambda>b. b < 128) (buf_slice (buf t) p (nat len))
              then (Returns (Some (string_of (buf_slice (buf t) p (nat len)))), t')
            else (Unmodelled ''utf8Slice of bytes outside ASCII'', t')))"

definition skipString :: "tap \<Rightarrow> unit outcome \<times> tap" where
  "skipString t = bind_tap (readLong t) (\<lambda>len t1. (Returns (), t1\<lparr>pos := pos t1 + len\<rparr>))"

text \<open>\<open>writeString\<close>: up to 64 bytes are stored one by one (a store outside the buffer
  is dropped), longer strings by \<open>utf8Write\<close>.\<close>

definition writeString :: "string \<Rightarrow> tap \<Rightarrow> unit outcome \<times> tap" where
  "writeString s t =
     (if \<not> ascii s then (Unmodelled ''UTF-8 encoding of a string outside ASCII'', t)
      else
        bind_tap (writeLong (int (length s)) t) (\<lambda>u t1.
          (let len = length s; p = pos t1; t' = t1\<lparr>pos := p + int len\<rparr>
           in if pos t' > int (length (buf t)) then (Returns (), t')
              else if len > 64 then
                (if p < 0 then (Throws (JsRangeError ''offset is out of range''), t')
                 else (Returns (), t'\<lparr>buf := buf_store (buf t1) p (bytes_of s)\<rparr>))
              else (Returns (), t'\<lparr>buf := fst (foldl (\<lambda>(bf, q) c. (buf_set bf q (of_char c), q + 1))
                                                     (buf t1, p) s)\<rparr>))))"

section \<open>Validation (io.js)\<close>

text \<open>\<open>LONG_MAX_VALUE\<close> is written \<open>9223372036854775807\<close> in the source, a literal
  that denotes the binary64 number \<open>2 ^ 63\<close>.\<close>

definition INT_MIN_VALUE :: int where "INT_MIN_VALUE = - 2147483648"
definition INT_MAX_VALUE :: int where "INT_MAX_VALUE = 2147483647"
definition LONG_MIN_VALUE :: int where "LONG_MIN_VALUE = - 9223372036854775808"
definition LONG_MAX_VALUE :: int where "LONG_MAX_VALUE = 9223372036854775808"

text \<open>\<open>xs.map(f).every(x => x)\<close> and \<open>xs.map(f).some(x => x)\<close>: every element is
  evaluated before the results are combined, so the first outcome that is not a value
  is the outcome of the whole.\<close>

fun all_out :: "bool outcome list \<Rightarrow> bool outcome" where
  "all_out [] = Returns True"
| "all_out (r # rs) =
     (case r of
        Returns b \<Rightarrow> (case all_out rs of
                        Returns b' \<Rightarrow> Returns (b \<and> b')
                      | Throws e \<Rightarrow> Throws e
                      | Unmodelled m \<Rightarrow> Unmodelled m)
      | Throws e \<Rightarrow> Throws e
      | Unmodelled m \<Rightarrow> Unmodelled m)"

fun some_out :: "bool outcome list \<Rightarrow> bool outcome" where
  "some_out [] = Returns False"
| "some_out (r # rs) =
     (case r of
        Returns b \<Rightarrow> (case some_out rs of
                        Returns b' \<Rightarrow> Returns (b \<or> b')
                      | Throws e \<Rightarrow> Throws e
                      | Unmodelled m \<Rightarrow> Unmodelled m)
      | Throws e \<Rightarrow> Throws e
      | Unmodelled m \<Rightarrow> Unmodelled m)"

text \<open>\<open>validate\<close> with no logical type registered: the table \<open>_valid\<close>. A record reads
  \<open>d[f.name]\<close> for each of its fields.\<close>

fun validate :: "schema \<Rightarrow> jsval \<Rightarrow> bool outcome" where
  "validate (Primitive PNull) d = Returns (d = VNull)"
| "validate (Primitive PBoolean) d = Returns (case d of VBool _ \<Rightarrow> True | _ \<Rightarrow> False)"
| "validate (Primitive PString) d = Returns (isString d)"
| "validate (Primitive PBytes) d = Returns (isBuffer d)"
| "validate (Primitive PInt) d =
     Returns (case d of VNum n \<Rightarrow> INT_MIN_VALUE \<le> n \<and> n \<le> INT_MAX_VALUE | _ \<Rightarrow> False)"
| "validate (Primitive PLong) d =
     Returns (case d of VNum n \<Rightarrow> LONG_MIN_VALUE \<le> n \<and> n \<le> LONG_MAX_VALUE | _ \<Rightarrow> False)"
| "validate (Primitive PFloat) d = Returns (isNumber d)"
| "validate (Primitive PDouble) d = Returns (isNumber d)"
| "validate (Fixed n sz) d = Returns (case d of VBuf bs \<Rightarrow> length bs = sz | _ \<Rightarrow> False)"
| "validate (Enum n symbols) d = Returns (case d of VStr s \<Rightarrow> s \<in> set symbols | _ \<Rightarrow> False)"
| "validate (Array items) d =
     (case d of VArr xs \<Rightarrow> all_out (map (\<lambda>item. validate items item) xs) | _ \<Rightarrow> Returns False)"
| "validate (Map vals) d =
     (if isObject d then all_out (map (\<lambda>v. validate vals v) (object_values d))
      else Returns False)"
| "validate (Union ut schemas) d = some_out (map (\<lambda>branch. validate branch d) schemas)"
| "validate (Record rt n flds) d =
     (if isObject d then
        (case all_out (map (\<lambda>f. case f of Field fn ft hdf dv \<Rightarrow>
                              (case get_prop d fn of
                                 Returns v \<Rightarrow> validate ft v
                               | Throws e \<Rightarrow> Throws e
                               | Unmodelled m \<Rightarrow> Unmodelled m)) flds) of
           Returns b \<Rightarrow> Returns (b \<and> list_all (\<lambda>k. k \<in> set (map fname flds)) (object_keys d))
         | Throws e \<Rightarrow> Throws e
         | Unmodelled m \<Rightarrow> Unmodelled m)
      else Returns False)"
| "validate (Recursive rt n) d = Unmodelled ''a schema that refers to itself''"

section \<open>DatumWriter (io.js)\<close>

text \<open>
  The writer and the reader return an \<open>outcome\<close> with the cursor. Where the source would
  go on with a datum of another type than its schema (which \<open>write\<close> excludes by
  validating first), the outcome is \<open>Unmodelled\<close>.
\<close>

definition lift :: "'a outcome \<times> tap \<Rightarrow> ('a \<times> tap) outcome" where
  "lift r = (case r of (Returns x, t) \<Rightarrow> Returns (x, t)
                     | (Throws e, t) \<Rightarrow> Throws e
                     | (Unmodelled m, t) \<Rightarrow> Unmodelled m)"

definition lift_tap :: "unit outcome \<times> tap \<Rightarrow> tap outcome" where
  "lift_tap r = (case r of (Returns x, t) \<Rightarrow> Returns t
                         | (Throws e, t) \<Rightarrow> Throws e
                         | (Unmodelled m, t) \<Rightarrow> Unmodelled m)"

lemma size_ftype: "size (ftype f) < size f"
  by (cases f) simp

text \<open>\<open>!!b\<close>\<close>

definition truthy :: "jsval \<Rightarrow> bool" where
  "truthy v = (case v of VUndefined \<Rightarrow> False | VNull \<Rightarrow> False | VBool b \<Rightarrow> b
                       | VNum n \<Rightarrow> n \<noteq> 0 | VStr s \<Rightarrow> s \<noteq> [] | _ \<Rightarrow> True)"

text \<open>\<open>symbols.indexOf(datum)\<close>\<close>

fun indexOf :: "string list \<Rightarrow> jsval \<Rightarrow> int" where
  "indexOf [] d = - 1"
| "indexOf (x # xs) d =
     (if d = VStr x then 0 else (let i = indexOf xs d in if i < 0 then - 1 else i + 1))"

text \<open>The loop of \<open>writeUnion\<close> over the branches: \<open>i\<close> is the index of the first
  branch of the list, \<open>indexOfSchema\<close> the value of the variable so far.\<close>

fun writeUnion_index :: "schema list \<Rightarrow> jsval \<Rightarrow> int \<Rightarrow> int \<Rightarrow> int outcome" where
  "writeUnion_index [] d i indexOfSchema = Returns indexOfSchema"
| "writeUnion_index (candidateSchema # rest) d i indexOfSchema =
     (case validate candidateSchema d of
        Returns b \<Rightarrow> writeUnion_index rest d (i + 1) (if b then i else indexOfSchema)
      | Throws e \<Rightarrow> Throws e
      | Unmodelled m \<Rightarrow> Unmodelled m)"

definition nullish :: "jsval \<Rightarrow> bool" where
  "nullish d = (d = VUndefined \<or> d = VNull)"

function (sequential) writeData :: "schema \<Rightarrow> jsval \<Rightarrow> tap \<Rightarrow> tap outcome"
  and writeArray_items :: "schema \<Rightarrow> jsval list \<Rightarrow> tap \<Rightarrow> tap outcome"
  and writeMap_entries :: "schema \<Rightarrow> (string \<times> jsval) list \<Rightarrow> tap \<Rightarrow> tap outcome"
  and writeUnion_branch :: "schema list \<Rightarrow> nat \<Rightarrow> jsval \<Rightarrow> tap \<Rightarrow> tap outcome"
  and writeRecord_fields :: "field list \<Rightarrow> jsval \<Rightarrow> tap \<Rightarrow> tap outcome"
where
  "writeData (Primitive PNull) d t = Returns t"
| "writeData (Primitive PBoolean) d t = Returns (writeBoolean (truthy d) t)"
| "writeData (Primitive PString) d t =
     (case d of VStr s \<Rightarrow> lift_tap (writeString s t)
              | _ \<Rightarrow> Unmodelled ''writeString of a value that is not a string'')"
| "writeData (Primitive PInt) d t =
     (case d of VNum n \<Rightarrow> lift_tap (writeLong n t)
              | _ \<Rightarrow> Unmodelled ''writeInt of a value that is not a number'')"
| "writeData (Primitive PLong) d t =
     (case d of VNum n \<Rightarrow> lift_tap (writeLong n t)
              | _ \<Rightarrow> Unmodelled ''writeLong of a value that is not a number'')"
| "writeData (Primitive PFloat) d t =
     (if pos t + 4 > int (length (buf t)) then Returns (t\<lparr>pos := pos t + 4\<rparr>)
      else Unmodelled ''writeFloatLE'')"
| "writeData (Primitive PDouble) d t =
     (if pos t + 8 > int (length (buf t)) then Returns (t\<lparr>pos := pos t + 8\<rparr>)
      else Unmodelled ''writeDoubleLE'')"
| "writeData (Primitive PBytes) d t =
     (case d of VBuf bs \<Rightarrow> lift_tap (writeBytes bs t)
              | _ \<Rightarrow> Unmodelled ''writeBytes of a value that is not a buffer'')"
| "writeData (Fixed n sz) d t =
     (case d of VBuf bs \<Rightarrow> lift_tap (writeFixed bs sz t)
              | _ \<Rightarrow> Unmodelled ''writeFixed of a value that is not a buffer'')"
| "writeData (Enum n symbols) d t = lift_tap (writeLong (indexOf symbols d) t)"
| "writeData (Array items) d t =
     (case d of
        VArr xs \<Rightarrow>
          (if length xs > 0 then
             (case lift_tap (writeLong (int (length xs)) t) of
                Returns t1 \<Rightarrow>
                  (case writeArray_items items xs t1 of
                     Returns t' \<Rightarrow> lift_tap (writeLong 0 t')
                   | Throws e \<Rightarrow> Throws e
                   | Unmodelled m \<Rightarrow> Unmodelled m)
              | Throws e \<Rightarrow> Throws e
              | Unmodelled m \<Rightarrow> Unmodelled m)
           else lift_tap (writeLong 0 t))
      | _ \<Rightarrow> Unmodelled ''writeArray of a value that is not an array'')"
| "writeData (Map vals) d t =
     (if nullish d then Throws (JsTypeError ''Cannot convert undefined or null to object'')
      else
        (let entries = object_entries d in
         if length entries > 0 then
           (case lift_tap (writeLong (int (length entries)) t) of
              Returns t1 \<Rightarrow>
                (case writeMap_entries vals entries t1 of
                   Returns t' \<Rightarrow> lift_tap (writeLong 0 t')
                 | Throws e \<Rightarrow> Throws e
                 | Unmodelled m \<Rightarrow> Unmodelled m)
            | Throws e \<Rightarrow> Throws e
            | Unmodelled m \<Rightarrow> Unmodelled m)
         else lift_tap (writeLong 0 t)))"
| "writeData (Union ut schemas) d t =
     (case writeUnion_index schemas d 0 (- 1) of
        Returns indexOfSchema \<Rightarrow>
          if indexOfSchema < 0 then Throws AvroTypeError
          else
            (case lift_tap (writeLong indexOfSchema t) of
               Returns t1 \<Rightarrow> writeUnion_branch schemas (nat indexOfSchema) d t1
             | Throws e \<Rightarrow> Throws e
             | Unmodelled m \<Rightarrow> Unmodelled m)
      | Throws e \<Rightarrow> Throws e
      | Unmodelled m \<Rightarrow> Unmodelled m)"
| "writeData (Record rt n flds) d t = writeRecord_fields flds d t"
| "writeData (Recursive rt n) d t = Unmodelled ''a schema that refers to itself''"
| "writeArray_items items [] t = Returns t"
| "writeArray_items items (item # rest) t =
     (case writeData items item t of
        Returns t' \<Rightarrow> writeArray_items items rest t'
      | Throws e \<Rightarrow> Throws e
      | Unmodelled m \<Rightarrow> Unmodelled m)"
| "writeMap_entries vals [] t = Returns t"
| "writeMap_entries vals ((key, val) # rest) t =
     (case lift_tap (writeString key t) of
        Returns t1 \<Rightarrow>
          (case writeData vals val t1 of
             Returns t' \<Rightarrow> writeMap_entries vals rest t'
           | Throws e \<Rightarrow> Throws e
           | Unmodelled m \<Rightarrow> Unmodelled m)
      | Throws e \<Rightarrow> Throws e
      | Unmodelled m \<Rightarrow> Unmodelled m)"
| "writeUnion_branch [] i d t = Throws (JsTypeError ''Cannot read properties of undefined (reading type)'')"
| "writeUnion_branch (b # bs) 0 d t = writeData b d t"
| "writeUnion_branch (b # bs) (Suc i) d t = writeUnion_branch bs i d t"
| "writeRecord_fields [] d t = Returns t"
| "writeRecord_fields (f # rest) d t =
     (case get_prop d (fname f) of
        Returns v \<Rightarrow>
          (case writeData (ftype f) v t of
             Returns t' \<Rightarrow> writeRecord_fields rest d t'
           | Throws e \<Rightarrow> Throws e
           | Unmodelled m \<Rightarrow> Unmodelled m)
      | Throws e \<Rightarrow> Throws e
      | Unmodelled m \<Rightarrow> Unmodelled m)"
  by pat_completeness auto
termination
  apply (relation "measures [
     case_sum (case_sum (\<lambda>(sch, d, t). 2 * size sch) (\<lambda>(items, xs, t). 2 * size items + 1))
       (case_sum (\<lambda>(vals, kvs, t). 2 * size vals + 1)
         (case_sum (\<lambda>(bs, i, d, t). 2 * size_list size bs + 1) (\<lambda>(fs, d, t). 2 * size_list size fs + 1))),
     case_sum (case_sum (\<lambda>(sch, d, t). 0) (\<lambda>(items, xs, t). length xs))
       (case_sum (\<lambda>(vals, kvs, t). length kvs)
         (case_sum (\<lambda>(bs, i, d, t). 0) (\<lambda>(fs, d, t). 0)))]")
  apply auto
  subgoal for f using size_ftype [of f] by simp
  done

text \<open>\<open>DatumWriter.write\<close>\<close>

definition DatumWriter_write :: "schema \<Rightarrow> jsval \<Rightarrow> tap \<Rightarrow> tap outcome" where
  "DatumWriter_write writersSchema datum t =
     (case validate writersSchema datum of
        Returns b \<Rightarrow> if \<not> b then Throws AvroTypeError else writeData writersSchema datum t
      | Throws e \<Rightarrow> Throws e
      | Unmodelled m \<Rightarrow> Unmodelled m)"

section \<open>DatumReader (io.js)\<close>

fun is_union :: "schema \<Rightarrow> bool" where
  "is_union (Union ut schemas) = True"
| "is_union _ = False"

fun is_recursive :: "schema \<Rightarrow> bool" where
  "is_recursive (Recursive rt n) = True"
| "is_recursive _ = False"

fun schemas_of :: "schema \<Rightarrow> schema list" where
  "schemas_of (Union ut schemas) = schemas"
| "schemas_of _ = []"

text \<open>\<open>schema.items\<close>, \<open>schema.values\<close> and \<open>schema.size\<close>; \<open>None\<close> is
  \<open>undefined\<close>.\<close>

fun items_of :: "schema \<Rightarrow> schema option" where
  "items_of (Array items) = Some items"
| "items_of _ = None"

fun values_of :: "schema \<Rightarrow> schema option" where
  "values_of (Map vals) = Some vals"
| "values_of _ = None"

fun size_of :: "schema \<Rightarrow> nat option" where
  "size_of (Fixed n sz) = Some sz"
| "size_of _ = None"

definition matchSchemas :: "schema \<Rightarrow> schema \<Rightarrow> bool" where
  "matchSchemas writersSchema readersSchema =
     (let wType = type_of writersSchema; rType = type_of readersSchema in
      if wType = ''union'' \<or> rType = ''union'' \<or> wType = ''error_union'' \<or> rType = ''error_union''
        then True
      else if wType \<in> set PRIMITIVE_TYPES \<and> rType \<in> set PRIMITIVE_TYPES \<and> wType = rType
        then True
      else if wType = ''record'' \<and> rType = ''record''
              \<and> fullname writersSchema = fullname readersSchema
        then True
      else if wType = ''error'' \<and> rType = ''error''
              \<and> fullname writersSchema = fullname readersSchema
        then True
      else if wType = ''request'' \<and> rType = ''request''
        then True
      else if wType = ''fixed'' \<and> rType = ''fixed''
              \<and> fullname writersSchema = fullname readersSchema
              \<and> size_of writersSchema = size_of readersSchema
        then True
      else if wType = ''enum'' \<and> rType = ''enum''
              \<and> fullname writersSchema = fullname readersSchema
        then True
      else if wType = ''map'' \<and> rType = ''map''
              \<and> map_option type_of (values_of writersSchema)
                  = map_option type_of (values_of readersSchema)
        then True
      else if wType = ''array'' \<and> rType = ''array''
              \<and> map_option type_of (items_of writersSchema)
                  = map_option type_of (items_of readersSchema)
        then True
      else if wType = ''int'' \<and> rType \<in> set [''long'', ''float'', ''double''] then True
      else if wType = ''long'' \<and> rType \<in> set [''float'', ''double''] then True
      else if wType = ''float'' \<and> rType = ''double'' then True
      else False)"

subsection \<open>skipData\<close>

text \<open>
  A length read from the buffer can be negative, and a skip or a read of a string then
  moves the cursor backwards, so the loops over blocks need not end on every buffer.
  The reader and \<open>skipData\<close> take fuel, spent at each call: \<open>None\<close> means that the fuel
  ran out. \<open>skipData\<close> calls \<open>tap.skipUtf8()\<close> for a string and \<open>tap.skip(blockSize)\<close>
  for a block with a negative count; the cursor has neither method (its methods are
  \<open>skipString\<close> and \<open>skipFixed\<close>).
\<close>

function (sequential) skipData :: "nat \<Rightarrow> schema \<Rightarrow> tap \<Rightarrow> tap outcome option"
  and skipBlocks :: "nat \<Rightarrow> bool \<Rightarrow> schema \<Rightarrow> int \<Rightarrow> tap \<Rightarrow> tap outcome option"
  and skipItems :: "nat \<Rightarrow> bool \<Rightarrow> schema \<Rightarrow> int \<Rightarrow> tap \<Rightarrow> tap outcome option"
  and skipRecord :: "nat \<Rightarrow> field list \<Rightarrow> tap \<Rightarrow> tap outcome option"
where
  "skipData 0 w t = None"
| "skipData (Suc n) (Primitive PNull) t = Some (Returns t)"
| "skipData (Suc n) (Primitive PBoolean) t = Some (Returns (skipBoolean t))"
| "skipData (Suc n) (Primitive PString) t = Some (Throws (JsTypeError ''tap.skipUtf8 is not a function''))"
| "skipData (Suc n) (Primitive PInt) t = Some (Returns (skipLong t))"
| "skipData (Suc n) (Primitive PLong) t = Some (Returns (skipLong t))"
| "skipData (Suc n) (Primitive PFloat) t = Some (Returns (skipFloat t))"
| "skipData (Suc n) (Primitive PDouble) t = Some (Returns (skipDouble t))"
| "skipData (Suc n) (Primitive PBytes) t = Some (lift_tap (skipBytes t))"
| "skipData (Suc n) (Fixed nm sz) t = Some (Returns (skipFixed (int sz) t))"
| "skipData (Suc n) (Enum nm symbols) t = Some (Returns (skipLong t))"
| "skipData (Suc n) (Array items) t =
     (case lift (readLong t) of
        Returns (blockCount, t1) \<Rightarrow> skipBlocks n False items blockCount t1
      | Throws e \<Rightarrow> Some (Throws e)
      | Unmodelled m \<Rightarrow> Some (Unmodelled m))"
| "skipData (Suc n) (Map vals) t =
     (case lift (readLong t) of
        Returns (blockCount, t1) \<Rightarrow> skipBlocks n True vals blockCount t1
      | Throws e \<Rightarrow> Some (Throws e)
      | Unmodelled m \<Rightarrow> Some (Unmodelled m))"
| "skipData (Suc n) (Union ut schemas) t =
     (case lift (readLong t) of
        Returns (indexOfSchema, t1) \<Rightarrow>
          if indexOfSchema \<ge> int (length schemas)
            then Some (Throws (SchemaResolutionError ''Cannot access branch index''))
          else if indexOfSchema < 0
            then Some (Throws (JsTypeError ''Cannot read properties of undefined (reading type)''))
          else skipData n (schemas ! nat indexOfSchema) t1
      | Throws e \<Rightarrow> Some (Throws e)
      | Unmodelled m \<Rightarrow> Some (Unmodelled m))"
| "skipData (Suc n) (Record rt nm flds) t = skipRecord n flds t"
| "skipData (Suc n) (Recursive rt nm) t = Some (Unmodelled ''a schema that refers to itself'')"
| "skipBlocks 0 keyed sch blockCount t = None"
| "skipBlocks (Suc n) keyed sch blockCount t =
     (if blockCount = 0 then Some (Returns t)
      else if blockCount < 0 then Some (Throws (JsTypeError ''tap.skip is not a function''))
      else
        (case skipItems n keyed sch blockCount t of
           Some (Returns t') \<Rightarrow>
             (case lift (readLong t') of
                Returns (blockCount', t'') \<Rightarrow> skipBlocks n keyed sch blockCount' t''
              | Throws e \<Rightarrow> Some (Throws e)
              | Unmodelled m \<Rightarrow> Some (Unmodelled m))
         | r \<Rightarrow> r))"
| "skipItems 0 keyed sch i t = None"
| "skipItems (Suc n) keyed sch i t =
     (if i \<le> 0 then Some (Returns t)
      else
        (case (if keyed then lift_tap (skipString t) else Returns t) of
           Returns t1 \<Rightarrow>
             (case skipData n sch t1 of
                Some (Returns t') \<Rightarrow> skipItems n keyed sch (i - 1) t'
              | r \<Rightarrow> r)
         | Throws e \<Rightarrow> Some (Throws e)
         | Unmodelled m \<Rightarrow> Some (Unmodelled m)))"
| "skipRecord 0 flds t = None"
| "skipRecord (Suc n) [] t = Some (Returns t)"
| "skipRecord (Suc n) (f # rest) t =
     (case skipData n (ftype f) t of
        Some (Returns t') \<Rightarrow> skipRecord n rest t'
      | r \<Rightarrow> r)"
  by pat_completeness auto
termination
  by (relation "measure (case_sum (case_sum (\<lambda>x. fst x) (\<lambda>x. fst x))
                                  (case_sum (\<lambda>x. fst x) (\<lambda>x. fst x)))") auto

subsection \<open>Default values\<close>

text \<open>\<open>Buffer.from(defaultValue)\<close>\<close>

definition Buffer_from :: "jsval \<Rightarrow> jsval outcome" where
  "Buffer_from d =
     (case d of
        VStr s \<Rightarrow> if ascii s then Returns (VBuf (bytes_of s))
                  else Unmodelled ''UTF-8 encoding of a string outside ASCII''
      | VBuf bs \<Rightarrow> Returns (VBuf bs)
      | VArr xs \<Rightarrow> if list_all isNumber xs
                   then Returns (VBuf (map (\<lambda>x. case x of VNum n \<Rightarrow> word_of_int n | _ \<Rightarrow> 0) xs))
                   else Unmodelled ''Buffer.from of an array with elements that are not numbers''
      | VObj kvs \<Rightarrow> Unmodelled ''Buffer.from of an object''
      | _ \<Rightarrow> Throws (JsTypeError ''The first argument must be of type string or Buffer''))"

text \<open>The values \<open>for (const x of d)\<close> runs over; \<open>None\<close> when \<open>d\<close> is not iterable.\<close>

definition iterate :: "jsval \<Rightarrow> jsval list option" where
  "iterate d = (case d of VArr xs \<Rightarrow> Some xs
                        | VStr s \<Rightarrow> Some (map (\<lambda>c. VStr [c]) s)
                        | VBuf bs \<Rightarrow> Some (map (\<lambda>b. VNum (uint b)) bs)
                        | _ \<Rightarrow> None)"

text \<open>The assignment \<open>obj[key] = v\<close> of the reader to an object it builds. With the
  key \<open>__proto__\<close> it does not add a property but changes the prototype of the object,
  which the model does not follow.\<close>

definition assign :: "(string \<times> 'v) list \<Rightarrow> string \<Rightarrow> 'v \<Rightarrow> (string \<times> 'v) list outcome" where
  "assign obj k v =
     (if k = ''__proto__'' then Unmodelled ''assignment to __proto__''
      else Returns (obj_set obj k v))"

function (sequential) readDefaultValue :: "schema \<Rightarrow> jsval \<Rightarrow> jsval outcome"
  and readDefault_items :: "schema \<Rightarrow> jsval list \<Rightarrow> jsval list \<Rightarrow> jsval outcome"
  and readDefault_entries :: "schema \<Rightarrow> (string \<times> jsval) list \<Rightarrow> (string \<times> jsval) list \<Rightarrow> jsval outcome"
  and readDefault_first :: "schema list \<Rightarrow> jsval \<Rightarrow> jsval outcome"
  and readDefault_fields :: "field list \<Rightarrow> jsval \<Rightarrow> (string \<times> jsval) list \<Rightarrow> jsval outcome"
where
  "readDefaultValue (Primitive PNull) d = Returns VNull"
| "readDefaultValue (Primitive PBytes) d = Buffer_from d"
| "readDefaultValue (Primitive p) d = Returns d"
| "readDefaultValue (Enum nm symbols) d = Returns d"
| "readDefaultValue (Fixed nm sz) d = Buffer_from d"
| "readDefaultValue (Array items) d =
     (case iterate d of
        None \<Rightarrow> Throws (JsTypeError ''defaultValue is not iterable'')
      | Some xs \<Rightarrow> readDefault_items items xs [])"
| "readDefaultValue (Map vals) d =
     (if nullish d then Throws (JsTypeError ''Cannot convert undefined or null to object'')
      else readDefault_entries vals (object_entries d) [])"
| "readDefaultValue (Union ut schemas) d = readDefault_first schemas d"
| "readDefaultValue (Record TRecord nm flds) d = readDefault_fields flds d []"
| "readDefaultValue (Record rt nm flds) d = Throws (Err ''Unknown type'')"
| "readDefaultValue (Recursive rt nm) d = Unmodelled ''a schema that refers to itself''"
| "readDefault_items items [] readArray = Returns (VArr readArray)"
| "readDefault_items items (jsonVal # rest) readArray =
     (case readDefaultValue items jsonVal of
        Returns itemVal \<Rightarrow> readDefault_items items rest (readArray @ [itemVal])
      | r \<Rightarrow> r)"
| "readDefault_entries vals [] readMap = Returns (VObj readMap)"
| "readDefault_entries vals ((key, jsonVal) # rest) readMap =
     (case readDefaultValue vals jsonVal of
        Returns mapVal \<Rightarrow>
          (case assign readMap key mapVal of
             Returns readMap' \<Rightarrow> readDefault_entries vals rest readMap'
           | Throws e \<Rightarrow> Throws e
           | Unmodelled m \<Rightarrow> Unmodelled m)
      | r \<Rightarrow> r)"
| "readDefault_first [] d = Throws (JsTypeError ''Cannot read properties of undefined (reading type)'')"
| "readDefault_first (b # bs) d = readDefaultValue b d"
| "readDefault_fields [] d readRecord = Returns (VObj readRecord)"
| "readDefault_fields (f # rest) d readRecord =
     (case get_prop d (fname f) of
        Returns own \<Rightarrow>
          (let jsonVal = (if own = VUndefined then fdefault f else own)
           in case readDefaultValue (ftype f) jsonVal of
                Returns fieldVal \<Rightarrow>
                  (case assign readRecord (fname f) fieldVal of
                     Returns readRecord' \<Rightarrow> readDefault_fields rest d readRecord'
                   | Throws e \<Rightarrow> Throws e
                   | Unmodelled m \<Rightarrow> Unmodelled m)
              | r \<Rightarrow> r)
      | Throws e \<Rightarrow> Throws e
      | Unmodelled m \<Rightarrow> Unmodelled m)"
  by pat_completeness auto
termination
  apply (relation "measures [
     case_sum (case_sum (\<lambda>(sch, d). 2 * size sch) (\<lambda>(items, xs, acc). 2 * size items + 1))
       (case_sum (\<lambda>(vals, kvs, acc). 2 * size vals + 1)
         (case_sum (\<lambda>(bs, d). 2 * size_list size bs + 1) (\<lambda>(fs, d, acc). 2 * size_list size fs + 1))),
     case_sum (case_sum (\<lambda>(sch, d). 0) (\<lambda>(items, xs, acc). length xs))
       (case_sum (\<lambda>(vals, kvs, acc). length kvs)
         (case_sum (\<lambda>(bs, d). 0) (\<lambda>(fs, d, acc). 0)))]")
  apply auto
  subgoal for f using size_ftype [of f] by simp
  done

subsection \<open>readData\<close>

text \<open>\<open>RecordSchema.fieldsDict\<close>: the fields by name, built by assignments to an empty
  object. It is \<open>None\<close> when a field is named \<open>__proto__\<close>.\<close>

definition fieldsDict :: "field list \<Rightarrow> (string \<times> field) list option" where
  "fieldsDict flds =
     (if ''__proto__'' \<in> set (map fname flds) then None
      else Some (foldl (\<lambda>dict f. obj_set dict (fname f) f) [] flds))"

fun record_fields :: "schema \<Rightarrow> field list option" where
  "record_fields (Record rt nm flds) = Some flds"
| "record_fields _ = None"

fun symbols_of :: "schema \<Rightarrow> string list option" where
  "symbols_of (Enum nm symbols) = Some symbols"
| "symbols_of _ = None"

text \<open>\<open>readEnum\<close>; a negative index reads \<open>undefined\<close> from \<open>symbols\<close>, which no
  reader has among its symbols.\<close>

definition readEnum :: "string list \<Rightarrow> schema \<Rightarrow> tap \<Rightarrow> (jsval \<times> tap) outcome" where
  "readEnum wsymbols readersSchema t =
     (case lift (readLong t) of
        Returns (indexOfSymbol, t1) \<Rightarrow>
          if indexOfSymbol \<ge> int (length wsymbols)
            then Throws (SchemaResolutionError ''Cannot access enum index'')
          else
            (case symbols_of readersSchema of
               None \<Rightarrow> Throws (JsTypeError ''Cannot read properties of undefined (reading includes)'')
             | Some rsymbols \<Rightarrow>
                 if indexOfSymbol < 0 \<or> wsymbols ! nat indexOfSymbol \<notin> set rsymbols
                   then Throws (SchemaResolutionError ''Symbol not present in Reader's Schema'')
                 else Returns (VStr (wsymbols ! nat indexOfSymbol), t1))
      | Throws e \<Rightarrow> Throws e
      | Unmodelled m \<Rightarrow> Unmodelled m)"

text \<open>The second half of \<open>readRecord\<close>: the reader's fields that the writer does not
  have take their default.\<close>

fun fill_defaults :: "(string \<times> field) list \<Rightarrow> (string \<times> field) list \<Rightarrow> (string \<times> jsval) list
    \<Rightarrow> (string \<times> jsval) list outcome" where
  "fill_defaults [] writersFieldsDict readRecord = Returns readRecord"
| "fill_defaults ((fieldName, fld) # rest) writersFieldsDict readRecord =
     (if map_of writersFieldsDict fieldName = None then
        (if hasDefault fld then
           (case readDefaultValue (ftype fld) (fdefault fld) of
              Returns fieldVal \<Rightarrow>
                fill_defaults rest writersFieldsDict (obj_set readRecord (fname fld) fieldVal)
            | Throws e \<Rightarrow> Throws e
            | Unmodelled m \<Rightarrow> Unmodelled m)
         else Throws (SchemaResolutionError ''No default value for field''))
      else fill_defaults rest writersFieldsDict readRecord)"

definition readRecord_defaults :: "(string \<times> field) list \<Rightarrow> (string \<times> field) list
    \<Rightarrow> (string \<times> jsval) list \<Rightarrow> (string \<times> jsval) list outcome" where
  "readRecord_defaults writersFieldsDict readersFieldsDict readRecord =
     (if length readersFieldsDict > length readRecord
        then fill_defaults readersFieldsDict writersFieldsDict readRecord
      else Returns readRecord)"

text \<open>The key under which \<open>readItems[key] = ...\<close> stores when \<open>readString\<close> gave
  \<open>undefined\<close>.\<close>

definition key_of :: "string option \<Rightarrow> string" where
  "key_of k = (case k of None \<Rightarrow> ''undefined'' | Some s \<Rightarrow> s)"

text \<open>
  \<open>readData\<close> with \<open>readArray\<close>, \<open>readMap\<close>, \<open>readUnion\<close> and \<open>readRecord\<close>.
  \<open>readArray_blocks\<close> and \<open>readMap_blocks\<close> are the \<open>while\<close> loops over the blocks,
  entered with the block count just read; \<open>readArray_items\<close> and \<open>readMap_items\<close> are
  the \<open>for\<close> loops over the items of a block, \<open>i\<close> counting the items left. The reader's
  \<open>items\<close> or \<open>values\<close> is \<open>None\<close> when the reader's schema has no such property.
  In \<open>readRecord\<close> the read \<open>readersFieldsDict[field.name]\<close> of a name that the reader
  does not have but every object inherits gives a function, not \<open>undefined\<close>; the
  reader goes on with its \<open>type\<close>, which is \<open>undefined\<close>, and \<open>matchSchemas\<close> raises.
\<close>

function (sequential) readData :: "nat \<Rightarrow> schema \<Rightarrow> schema \<Rightarrow> tap \<Rightarrow> (jsval \<times> tap) outcome option"
  and readArray_blocks :: "nat \<Rightarrow> schema \<Rightarrow> schema option \<Rightarrow> jsval list \<Rightarrow> int \<Rightarrow> tap
      \<Rightarrow> (jsval \<times> tap) outcome option"
  and readArray_items :: "nat \<Rightarrow> schema \<Rightarrow> schema option \<Rightarrow> jsval list \<Rightarrow> int \<Rightarrow> tap
      \<Rightarrow> (jsval list \<times> tap) outcome option"
  and readMap_blocks :: "nat \<Rightarrow> schema \<Rightarrow> schema option \<Rightarrow> (string \<times> jsval) list \<Rightarrow> int \<Rightarrow> tap
      \<Rightarrow> (jsval \<times> tap) outcome option"
  and readMap_items :: "nat \<Rightarrow> schema \<Rightarrow> schema option \<Rightarrow> (string \<times> jsval) list \<Rightarrow> int \<Rightarrow> tap
      \<Rightarrow> ((string \<times> jsval) list \<times> tap) outcome option"
  and readRecord_fields :: "nat \<Rightarrow> field list \<Rightarrow> (string \<times> field) list \<Rightarrow> (string \<times> jsval) list \<Rightarrow> tap
      \<Rightarrow> ((string \<times> jsval) list \<times> tap) outcome option"
where
  "readData 0 writersSchema readersSchema t = None"
| "readData (Suc n) writersSchema readersSchema t =
     (if is_recursive writersSchema \<or> is_recursive readersSchema
        then Some (Unmodelled ''a schema that refers to itself'')
      else if \<not> matchSchemas writersSchema readersSchema
        then Some (Throws (SchemaResolutionError ''Schemas do not match.''))
      else if \<not> is_union writersSchema \<and> is_union readersSchema then
        (case find (\<lambda>s. matchSchemas writersSchema s) (schemas_of readersSchema) of
           Some s \<Rightarrow> readData n writersSchema s t
         | None \<Rightarrow> Some (Throws (SchemaResolutionError ''Schemas do not match.'')))
      else
        (case writersSchema of
           Primitive PNull \<Rightarrow> Some (Returns (VNull, t))
         | Primitive PBoolean \<Rightarrow> (case readBoolean t of (b, t') \<Rightarrow> Some (Returns (VBool b, t')))
         | Primitive PString \<Rightarrow>
             Some (case lift (readString t) of
                     Returns (r, t') \<Rightarrow> Returns (case r of None \<Rightarrow> VUndefined | Some str \<Rightarrow> VStr str, t')
                   | Throws e \<Rightarrow> Throws e
                   | Unmodelled m \<Rightarrow> Unmodelled m)
         | Primitive PInt \<Rightarrow>
             Some (case lift (readLong t) of
                     Returns (i, t') \<Rightarrow> Returns (VNum i, t')
                   | Throws e \<Rightarrow> Throws e
                   | Unmodelled m \<Rightarrow> Unmodelled m)
         | Primitive PLong \<Rightarrow>
             Some (case lift (readLong t) of
                     Returns (i, t') \<Rightarrow> Returns (VNum i, t')
                   | Throws e \<Rightarrow> Throws e
                   | Unmodelled m \<Rightarrow> Unmodelled m)
         | Primitive PFloat \<Rightarrow>
             Some (case lift (readFloat t) of
                     Returns (None, t') \<Rightarrow> Returns (VUndefined, t')
                   | Returns (Some bs, t') \<Rightarrow> Unmodelled ''readFloatLE''
                   | Throws e \<Rightarrow> Throws e
                   | Unmodelled m \<Rightarrow> Unmodelled m)
         | Primitive PDouble \<Rightarrow>
             Some (case lift (readDouble t) of
                     Returns (None, t') \<Rightarrow> Returns (VUndefined, t')
                   | Returns (Some bs, t') \<Rightarrow> Unmodelled ''readDoubleLE''
                   | Throws e \<Rightarrow> Throws e
                   | Unmodelled m \<Rightarrow> Unmodelled m)
         | Primitive PBytes \<Rightarrow>
             Some (case lift (readBytes t) of
                     Returns (r, t') \<Rightarrow> Returns (case r of None \<Rightarrow> VUndefined | Some bs \<Rightarrow> VBuf bs, t')
                   | Throws e \<Rightarrow> Throws e
                   | Unmodelled m \<Rightarrow> Unmodelled m)
         | Fixed nm sz \<Rightarrow>
             Some (case lift (readFixed (int sz) t) of
                     Returns (r, t') \<Rightarrow> Returns (case r of None \<Rightarrow> VUndefined | Some bs \<Rightarrow> VBuf bs, t')
                   | Throws e \<Rightarrow> Throws e
                   | Unmodelled m \<Rightarrow> Unmodelled m)
         | Enum nm symbols \<Rightarrow> Some (readEnum symbols readersSchema t)
         | Array items \<Rightarrow>
             (case lift (readLong t) of
                Returns (blockCount, t1) \<Rightarrow>
                  readArray_blocks n items (items_of readersSchema) [] blockCount t1
              | Throws e \<Rightarrow> Some (Throws e)
              | Unmodelled m \<Rightarrow> Some (Unmodelled m))
         | Map vals \<Rightarrow>
             (case lift (readLong t) of
                Returns (blockCount, t1) \<Rightarrow>
                  readMap_blocks n vals (values_of readersSchema) [] blockCount t1
              | Throws e \<Rightarrow> Some (Throws e)
              | Unmodelled m \<Rightarrow> Some (Unmodelled m))
         | Union ut schemas \<Rightarrow>
             (case lift (readLong t) of
                Returns (indexOfSchema, t1) \<Rightarrow>
                  if indexOfSchema \<ge> int (length schemas)
                    then Some (Throws (SchemaResolutionError ''Cannot access branch index''))
                  else if indexOfSchema < 0
                    then Some (Throws (JsTypeError ''Cannot read properties of undefined (reading type)''))
                  else readData n (schemas ! nat indexOfSchema) readersSchema t1
              | Throws e \<Rightarrow> Some (Throws e)
              | Unmodelled m \<Rightarrow> Some (Unmodelled m))
         | Record rt nm wflds \<Rightarrow>
             (case record_fields readersSchema of
                None \<Rightarrow> Some (Throws (JsTypeError ''Cannot read properties of undefined''))
              | Some rflds \<Rightarrow>
                  (case (fieldsDict wflds, fieldsDict rflds) of
                     (Some writersFieldsDict, Some readersFieldsDict) \<Rightarrow>
                       (case readRecord_fields n wflds readersFieldsDict [] t of
                          Some (Returns (readRecord, t')) \<Rightarrow>
                            Some (case readRecord_defaults writersFieldsDict readersFieldsDict readRecord of
                                    Returns readRecord' \<Rightarrow> Returns (VObj readRecord', t')
                                  | Throws e \<Rightarrow> Throws e
                                  | Unmodelled m \<Rightarrow> Unmodelled m)
                        | Some (Throws e) \<Rightarrow> Some (Throws e)
                        | Some (Unmodelled m) \<Rightarrow> Some (Unmodelled m)
                        | None \<Rightarrow> None)
                   | _ \<Rightarrow> Some (Unmodelled ''a field named __proto__'')))
         | Recursive rt nm \<Rightarrow> Some (Unmodelled ''a schema that refers to itself'')))"
| "readArray_blocks 0 witems ritems readItems blockCount t = None"
| "readArray_blocks (Suc n) witems ritems readItems blockCount t =
     (if blockCount = 0 then Some (Returns (VArr readItems, t))
      else
        (case (if blockCount < 0 then (- blockCount, snd (readLong t)) else (blockCount, t)) of
           (blockCount1, t1) \<Rightarrow>
             (case readArray_items n witems ritems readItems blockCount1 t1 of
                Some (Returns (readItems', t2)) \<Rightarrow>
                  (case lift (readLong t2) of
                     Returns (blockCount2, t3) \<Rightarrow>
                       readArray_blocks n witems ritems readItems' blockCount2 t3
                   | Throws e \<Rightarrow> Some (Throws e)
                   | Unmodelled m \<Rightarrow> Some (Unmodelled m))
              | Some (Throws e) \<Rightarrow> Some (Throws e)
              | Some (Unmodelled m) \<Rightarrow> Some (Unmodelled m)
              | None \<Rightarrow> None)))"
| "readArray_items 0 witems ritems readItems i t = None"
| "readArray_items (Suc n) witems ritems readItems i t =
     (if i \<le> 0 then Some (Returns (readItems, t))
      else
        (case ritems of
           None \<Rightarrow> Some (Throws (JsTypeError ''Cannot read properties of undefined (reading type)''))
         | Some r \<Rightarrow>
             (case readData n witems r t of
                Some (Returns (item, t')) \<Rightarrow> readArray_items n witems ritems (readItems @ [item]) (i - 1) t'
              | Some (Throws e) \<Rightarrow> Some (Throws e)
              | Some (Unmodelled m) \<Rightarrow> Some (Unmodelled m)
              | None \<Rightarrow> None)))"
| "readMap_blocks 0 wvals rvals readItems blockCount t = None"
| "readMap_blocks (Suc n) wvals rvals readItems blockCount t =
     (if blockCount = 0 then Some (Returns (VObj readItems, t))
      else
        (case (if blockCount < 0 then lift (readLong t) else Returns (blockCount, t)) of
           Returns (blockCount1, t1) \<Rightarrow>
             (case readMap_items n wvals rvals readItems blockCount1 t1 of
                Some (Returns (readItems', t2)) \<Rightarrow>
                  (case lift (readLong t2) of
                     Returns (blockCount2, t3) \<Rightarrow>
                       readMap_blocks n wvals rvals readItems' blockCount2 t3
                   | Throws e \<Rightarrow> Some (Throws e)
                   | Unmodelled m \<Rightarrow> Some (Unmodelled m))
              | Some (Throws e) \<Rightarrow> Some (Throws e)
              | Some (Unmodelled m) \<Rightarrow> Some (Unmodelled m)
              | None \<Rightarrow> None)
         | Throws e \<Rightarrow> Some (Throws e)
         | Unmodelled m \<Rightarrow> Some (Unmodelled m)))"
| "readMap_items 0 wvals rvals readItems i t = None"
| "readMap_items (Suc n) wvals rvals readItems i t =
     (if i \<le> 0 then Some (Returns (readItems, t))
      else
        (case lift (readString t) of
           Returns (key, t1) \<Rightarrow>
             (case rvals of
                None \<Rightarrow> Some (Throws (JsTypeError ''Cannot read properties of undefined (reading type)''))
              | Some r \<Rightarrow>
                  (case readData n wvals r t1 of
                     Some (Returns (v, t')) \<Rightarrow>
                       (case assign readItems (key_of key) v of
                          Returns readItems' \<Rightarrow> readMap_items n wvals rvals readItems' (i - 1) t'
                        | Throws e \<Rightarrow> Some (Throws e)
                        | Unmodelled m \<Rightarrow> Some (Unmodelled m))
                   | Some (Throws e) \<Rightarrow> Some (Throws e)
                   | Some (Unmodelled m) \<Rightarrow> Some (Unmodelled m)
                   | None \<Rightarrow> None))
         | Throws e \<Rightarrow> Some (Throws e)
         | Unmodelled m \<Rightarrow> Some (Unmodelled m)))"
| "readRecord_fields 0 wflds readersFieldsDict readRecord t = None"
| "readRecord_fields (Suc n) [] readersFieldsDict readRecord t = Some (Returns (readRecord, t))"
| "readRecord_fields (Suc n) (f # rest) readersFieldsDict readRecord t =
     (case dict_get readersFieldsDict (fname f) of
        Own readersField \<Rightarrow>
          (case readData n (ftype f) (ftype readersField) t of
             Some (Returns (fieldVal, t')) \<Rightarrow>
               readRecord_fields n rest readersFieldsDict (obj_set readRecord (fname f) fieldVal) t'
           | Some (Throws e) \<Rightarrow> Some (Throws e)
           | Some (Unmodelled m) \<Rightarrow> Some (Unmodelled m)
           | None \<Rightarrow> None)
      | Inherited \<Rightarrow>
          Some (Throws (JsTypeError ''Cannot read properties of undefined (reading type)''))
      | Absent \<Rightarrow>
          (case skipData n (ftype f) t of
             Some (Returns t') \<Rightarrow> readRecord_fields n rest readersFieldsDict readRecord t'
           | Some (Throws e) \<Rightarrow> Some (Throws e)
           | Some (Unmodelled m) \<Rightarrow> Some (Unmodelled m)
           | None \<Rightarrow> None))"
  by pat_completeness auto
termination
  by (relation "measure (case_sum (case_sum (\<lambda>x. fst x) (case_sum (\<lambda>x. fst x) (\<lambda>x. fst x)))
                                  (case_sum (\<lambda>x. fst x) (case_sum (\<lambda>x. fst x) (\<lambda>x. fst x))))") auto

text \<open>\<open>DatumReader.read\<close>: a reader built without a reader's schema
  (\<open>readersSchema === undefined\<close>) takes the writer's schema for it.\<close>

definition DatumReader_read :: "nat \<Rightarrow> schema \<Rightarrow> schema option \<Rightarrow> tap \<Rightarrow> (jsval \<times> tap) outcome option" where
  "DatumReader_read n writersSchema readersSchema t =
     (case readersSchema of
        None \<Rightarrow> readData n writersSchema writersSchema t
      | Some r \<Rightarrow> readData n writersSchema r t)"

section \<open>The argument of the integer loop of writeLong\<close>

lemma toInt32_id: "- 2147483648 \<le> x \<Longrightarrow> x < 2147483648 \<Longrightarrow> toInt32 x = x"
  unfolding toInt32_def by (rule signed_take_bit_int_eq_self) simp_all

definition zigzag :: "int \<Rightarrow> int" where
  "zigzag n = (if 0 \<le> n then n * 2 else (- n * 2) - 1)"

lemma zigzag_nonneg: "0 \<le> zigzag n"
  by (simp add: zigzag_def)

lemma zigzag_int32:
  assumes "- 1073741824 \<le> n" "n < 1073741824"
  shows "(if 0 \<le> n then js_shl n 1 else js_or (js_shl (js_not n) 1) 1) = zigzag n"
proof (cases "0 \<le> n")
  case True
  have "toInt32 n = n" using assms True by (intro toInt32_id) simp_all
  moreover have "toInt32 (n * 2) = n * 2" using assms True by (intro toInt32_id) simp_all
  ultimately show ?thesis using True by (simp add: js_shl_def zigzag_def push_bit_eq_mult)
next
  case False
  define x where "x = - n - 1"
  have x: "0 \<le> x" "x < 1073741824" using assms False by (simp_all add: x_def)
  have tn: "toInt32 n = n" using assms False by (intro toInt32_id) simp_all
  have nn: "js_not n = x" by (simp add: js_not_def tn not_int_def x_def)
  have tx: "toInt32 x = x" using x by (intro toInt32_id) simp_all
  have tx2: "toInt32 (x * 2) = x * 2" using x by (intro toInt32_id) simp_all
  have sh: "js_shl x 1 = x * 2" by (simp add: js_shl_def tx tx2 push_bit_eq_mult)
  have t1: "toInt32 1 = 1" by (intro toInt32_id) simp_all
  have "js_or (x * 2) 1 = x * 2 + 1" by (simp add: js_or_def tx2 t1 or_one_eq)
  then have e: "js_or (js_shl (js_not n) 1) 1 = x * 2 + 1" unfolding nn sh .
  have z: "zigzag n = x * 2 + 1" using False by (simp add: zigzag_def x_def)
  show ?thesis unfolding if_not_P [OF False] e z ..
qed

text \<open>\<open>writeLong\<close> enters its integer loop with a number from 0 to \<open>2 ^ 31 - 1\<close>, and
  the loop stays there; on such a number the test \<open>0 < m\<close> of the model follows from
  \<open>m >> 7 \<noteq> 0\<close>, the test of the source.\<close>

lemma writeLong_int_arg:
  assumes "- 1073741824 \<le> n" "n < 1073741824"
  shows "0 \<le> (if 0 \<le> n then js_shl n 1 else js_or (js_shl (js_not n) 1) 1)
       \<and> (if 0 \<le> n then js_shl n 1 else js_or (js_shl (js_not n) 1) 1) < 2147483648"
  unfolding zigzag_int32 [OF assms] using assms by (simp add: zigzag_def)

lemma writeLong_int_guard:
  assumes "0 \<le> m" "m < 2147483648"
  shows "0 \<le> js_sar m 7 \<and> js_sar m 7 < 2147483648 \<and> (js_sar m 7 \<noteq> 0 \<longrightarrow> 0 < m)"
proof -
  have t: "toInt32 m = m" using assms by (intro toInt32_id) simp_all
  have "js_sar m 7 = m div 128" by (simp add: js_sar_def t drop_bit_eq_div)
  then show ?thesis using assms by auto
qed

section \<open>Reference encodings of long values\<close>

text \<open>
  Claim C6. \<open>Tap.writeLong\<close> on a fresh cursor emits exactly the reference zig-zag
  varint bytes of each listed value (0, -1, 1, -2, 2, -64, 64, 8192, -8193, and 1234 as
  \<open>a4 13\<close>), low group first and the continuation bit in the high bit of every byte
  but the last; \<open>Tap.readLong\<close> on those bytes returns the value and leaves the cursor
  just behind them.
\<close>

theorem writeLong_readLong_reference:
  "map_prod id written (writeLong 0 (new_Tap (alloc 8))) = (Returns (), [0x00])
   \<and> readLong (new_Tap [0x00]) = (Returns 0, \<lparr>buf = [0x00], pos = 1\<rparr>)
   \<and> map_prod id written (writeLong (- 1) (new_Tap (alloc 8))) = (Returns (), [0x01])
   \<and> readLong (new_Tap [0x01]) = (Returns (- 1), \<lparr>buf = [0x01], pos = 1\<rparr>)
   \<and> map_prod id written (writeLong 1 (new_Tap (alloc 8))) = (Returns (), [0x02])
   \<and> readLong (new_Tap [0x02]) = (Returns 1, \<lparr>buf = [0x02], pos = 1\<rparr>)
   \<and> map_prod id written (writeLong (- 2) (new_Tap (alloc 8))) = (Returns (), [0x03])
   \<and> readLong (new_Tap [0x03]) = (Returns (- 2), \<lparr>buf = [0x03], pos = 1\<rparr>)
   \<and> map_prod id written (writeLong 2 (new_Tap (alloc 8))) = (Returns (), [0x04])
   \<and> readLong (new_Tap [0x04]) = (Returns 2, \<lparr>buf = [0x04], pos = 1\<rparr>)
   \<and> map_prod id written (writeLong (- 64) (new_Tap (alloc 8))) = (Returns (), [0x7f])
   \<and> readLong (new_Tap [0x7f]) = (Returns (- 64), \<lparr>buf = [0x7f], pos = 1\<rparr>)
   \<and> map_prod id written (writeLong 64 (new_Tap (alloc 8))) = (Returns (), [0x80, 0x01])
   \<and> readLong (new_Tap [0x80, 0x01]) = (Returns 64, \<lparr>buf = [0x80, 0x01], pos = 2\<rparr>)
   \<and> map_prod id written (writeLong 8192 (new_Tap (alloc 8))) = (Returns (), [0x80, 0x80, 0x01])
   \<and> readLong (new_Tap [0x80, 0x80, 0x01])
       = (Returns 8192, \<lparr>buf = [0x80, 0x80, 0x01], pos = 3\<rparr>)
   \<and> map_prod id written (writeLong (- 8193) (new_Tap (alloc 8))) = (Returns (), [0x81, 0x80, 0x01])
   \<and> readLong (new_Tap [0x81, 0x80, 0x01])
       = (Returns (- 8193), \<lparr>buf = [0x81, 0x80, 0x01], pos = 3\<rparr>)
   \<and> map_prod id written (writeLong 1234 (new_Tap (alloc 8))) = (Returns (), [0xa4, 0x13])
   \<and> readLong (new_Tap [0xa4, 0x13]) = (Returns 1234, \<lparr>buf = [0xa4, 0x13], pos = 2\<rparr>)"
  by code_simp

section \<open>Fullnames of parsed schemas\<close>

text \<open>
  Claim C5 (the code departs from it). For a named schema whose JSON gives a name
  without a dot and a non-empty \<open>namespace\<close>, the claim has the fullname
  \<open>namespace.name\<close>. \<open>makeAvscObject\<close> selects the namespace with the test
  \<open>jsonData.namespace === undefined ? jsonData.namespace : names.defaultNamespace\<close>,
  which discards a namespace that is given: at top level the fullname of the fixed
  schema \<open>MyFixed\<close> with namespace \<open>org.apache.hadoop.avro\<close> is \<open>MyFixed\<close>, and likewise
  for an enum and a record.
\<close>

theorem parse_drops_explicit_namespace:
  "map_sum id fullname (parse (VObj [(''type'', VStr ''fixed''), (''name'', VStr ''MyFixed''),
      (''namespace'', VStr ''org.apache.hadoop.avro''), (''size'', VNum 1)])) = Inr (Some ''MyFixed'')
   \<and> map_sum id fullname (parse (VObj [(''type'', VStr ''enum''), (''name'', VStr ''E''),
      (''namespace'', VStr ''org.foo''), (''symbols'', VArr [VStr ''A'', VStr ''B''])])) = Inr (Some ''E'')
   \<and> map_sum id fullname (parse (VObj [(''type'', VStr ''record''), (''name'', VStr ''X''),
      (''namespace'', VStr ''org.foo''), (''fields'', VArr [])])) = Inr (Some ''X'')
   \<and> Name_fullname (Some ''MyFixed'') (Some ''org.apache.hadoop.avro'') None
       = Inr ''org.apache.hadoop.avro.MyFixed''"
  by code_simp

section \<open>Registering names\<close>

text \<open>
  Claim C8 (the code departs from it). \<open>Names.addName\<close> is to reject a fullname that is
  a reserved type name. Its test is \<open>toAdd.fullname in constants.VALID_TYPES\<close>, which asks
  whether the fullname is a property key of the array, not whether it is one of its
  elements: \<open>record\<close>, \<open>array\<close> and \<open>int\<close> are not keys of the array, so they are
  registered, and a schema named \<open>record\<close> parses.
\<close>

theorem addName_accepts_reserved_names:
  "(case addName (Some ''record'') None (Fixed ''record'' 1) (new_Names None) of
      Inl e \<Rightarrow> False
    | Inr (full, N) \<Rightarrow> full = ''record'' \<and> names N ''record'' = Some (Fixed ''record'' 1))
   \<and> js_in_array ''record'' VALID_TYPES = False
   \<and> js_in_array ''array'' VALID_TYPES = False
   \<and> js_in_array ''int'' VALID_TYPES = False
   \<and> parse (VObj [(''type'', VStr ''fixed''), (''name'', VStr ''record''), (''size'', VNum 1)])
       = Inr (Fixed ''record'' 1)"
  by code_simp

section \<open>Reading without a reader's schema\<close>

lemma matchSchemas_refl: "matchSchemas w w"
proof (cases w)
  case (Primitive p)
  then show ?thesis by (cases p) (simp_all add: matchSchemas_def PRIMITIVE_TYPES_def)
next
  case (Record rt nm flds)
  then show ?thesis by (cases rt) (simp_all add: matchSchemas_def PRIMITIVE_TYPES_def)
next
  case (Union ut bs)
  then show ?thesis by (cases ut) (simp_all add: matchSchemas_def)
next
  case (Recursive rt nm)
  then show ?thesis by (cases rt) (simp_all add: matchSchemas_def PRIMITIVE_TYPES_def)
qed (simp_all add: matchSchemas_def PRIMITIVE_TYPES_def)

text \<open>
  Claim C10. A \<open>DatumReader\<close> built with \<open>readersSchema\<close> undefined decodes with the
  writer's schema as the reader's schema: \<open>read\<close> is \<open>readData\<close> of the writer's
  schema with itself, with a reader's schema \<open>r\<close> it is \<open>readData\<close> of the writer's
  schema with \<open>r\<close>, so reading without a reader's schema gives what reading with an
  explicit reader's schema equal to the writer's gives; and \<open>matchSchemas\<close>, the check
  that raises the mismatch of the two schemas handed to \<open>read\<close>, holds of a schema and
  itself.
\<close>

theorem read_without_readers_schema:
  "DatumReader_read n w None t = readData n w w t
   \<and> DatumReader_read n w (Some r) t = readData n w r t
   \<and> DatumReader_read n w None t = DatumReader_read n w (Some w) t
   \<and> matchSchemas w w"
  by (simp add: DatumReader_read_def matchSchemas_refl)

section \<open>The branch a union is written under\<close>











section \<open>Blocks with a negative count\<close>

text \<open>
  Claim C3 (the code departs from it for maps). The bytes \<open>01 06 02 61 02 00\<close> are a
  map with one block of count -1 and byte size 3, holding the entry \<open>a: 1\<close>.
  \<open>readMap\<close> negates the count and then overwrites it with the next long, the byte
  size, so it reads 3 entries, two of them past the end of the block, instead of 1.
  With a positive count the same entry is read back, and \<open>readArray\<close> handles the
  negative count as claimed (count -1, byte size 1, item 1).
\<close>

theorem readMap_negative_count_takes_block_size:
  "readData 20 (Map (Primitive PInt)) (Map (Primitive PInt))
       (new_Tap [0x01, 0x06, 0x02, 0x61, 0x02, 0x00])
     = Some (Returns (VObj [(''a'', VNum 1), ([], VNum 0), (''undefined'', VNum 0)],
                      \<lparr>buf = [0x01, 0x06, 0x02, 0x61, 0x02, 0x00], pos = 10\<rparr>))
   \<and> readData 20 (Map (Primitive PInt)) (Map (Primitive PInt))
       (new_Tap [0x02, 0x02, 0x61, 0x02, 0x00])
     = Some (Returns (VObj [(''a'', VNum 1)], \<lparr>buf = [0x02, 0x02, 0x61, 0x02, 0x00], pos = 5\<rparr>))
   \<and> readData 20 (Array (Primitive PInt)) (Array (Primitive PInt))
       (new_Tap [0x01, 0x02, 0x02, 0x00])
     = Some (Returns (VArr [VNum 1], \<lparr>buf = [0x01, 0x02, 0x02, 0x00], pos = 4\<rparr>))"
  by code_simp

section \<open>Record projection\<close>

text \<open>
  Claim C4 (the code departs from it). \<open>readRecord\<close> passes a writer's field that the
  reader does not have to \<open>skipData\<close>, which for a string calls \<open>tap.skipUtf8()\<close>, a
  method the cursor does not have: reading the record \<open>{a: "x", b: 5}\<close> with a reader
  that has only \<open>b\<close> raises a \<open>TypeError\<close> instead of skipping \<open>a\<close>. With a field of
  type \<open>long\<close> in its place the field is skipped, \<open>b\<close> is decoded and the reader's
  field \<open>h\<close> takes its default.
\<close>

theorem readRecord_skip_of_string_field_raises:
  "readData 20
      (Record TRecord ''Test'' [Field ''a'' (Primitive PString) False VUndefined,
                                Field ''b'' (Primitive PInt) False VUndefined])
      (Record TRecord ''Test'' [Field ''b'' (Primitive PInt) False VUndefined])
      (new_Tap [0x02, 0x78, 0x0a])
     = Some (Throws (JsTypeError ''tap.skipUtf8 is not a function''))
   \<and> readData 20
      (Record TRecord ''Test'' [Field ''a'' (Primitive PLong) False VUndefined,
                                Field ''b'' (Primitive PInt) False VUndefined])
      (Record TRecord ''Test'' [Field ''b'' (Primitive PInt) False VUndefined,
                                Field ''h'' (Primitive PInt) True (VNum 0)])
      (new_Tap [0x02, 0x0a])
     = Some (Returns (VObj [(''b'', VNum 5), (''h'', VNum 0)], \<lparr>buf = [0x02, 0x0a], pos = 2\<rparr>))"
  by code_simp

section \<open>Validation of records\<close>










section \<open>Overflow and negative lengths in the cursor\<close>










lemma skipLong_loop_pos: "p < skipLong_loop bf p"
proof (induction bf p rule: skipLong_loop.induct)
  case (1 bf p)
  show ?case
  proof (cases "js_and (num_of (buf_get bf p)) 0x80 \<noteq> 0")
    case True
    from "1.IH" [OF True] True show ?thesis
      by (subst skipLong_loop.simps) simp
  next
    case False
    then show ?thesis by (subst skipLong_loop.simps) simp
  qed
qed

lemma length_buf_set [simp]: "length (buf_set bf p v) = length bf"
  by (simp add: buf_set_def)




lemma length_buf_store [simp]: "length (buf_store bf p xs) = length bf"
  by (simp add: buf_store_def)






end
